theory Spec2Isabelle
  imports Complex_Main
begin

section \<open>Text: character classes, regular-expression scans, trimming\<close>

text \<open>
  Strings are lists of characters; a character stands for one code unit below 256
  (ASCII and Latin-1), which covers every literal of the scripts. The regular
  expressions of the scripts are character-class scans only, so each is modelled by the
  predicate of its class.
\<close>

text \<open>The class \<^verbatim>\<open>\d\<close>.\<close>

definition isDigit :: "char \<Rightarrow> bool" where
  "isDigit c = (c \<in> set ''0123456789'')"

text \<open>
  The class \<^verbatim>\<open>\s\<close>, which is also what \<^verbatim>\<open>trim()\<close> removes: space, tab, line feed,
  vertical tab, form feed, carriage return and the no-break space.
\<close>

definition isSpace :: "char \<Rightarrow> bool" where
  "isSpace c = (c \<in> {CHR '' '', CHR 0x09, CHR 0x0A, CHR 0x0B, CHR 0x0C, CHR 0x0D, CHR 0xA0})"

text \<open>The class \<^verbatim>\<open>[\d,.]\<close> of \<^verbatim>\<open>priceText.match(/[\d,.]+/)\<close>.\<close>

definition isAmountChar :: "char \<Rightarrow> bool" where
  "isAmountChar c = (isDigit c \<or> c = CHR '','' \<or> c = CHR ''.'')"

text \<open>The class \<^verbatim>\<open>[\d\s,.]\<close> of \<^verbatim>\<open>price.replace(/[\d\s,.]+/g, '')\<close>.\<close>

definition isAmountOrSpace :: "char \<Rightarrow> bool" where
  "isAmountOrSpace c = (isDigit c \<or> isSpace c \<or> c = CHR '','' \<or> c = CHR ''.'')"

text \<open>The negated class \<^verbatim>\<open>[^\d\s,.]\<close> of \<^verbatim>\<open>priceText.match(/[^\d\s,.]+/)\<close>.\<close>

definition isSymbolChar :: "char \<Rightarrow> bool" where
  "isSymbolChar c = (\<not> isAmountOrSpace c)"

text \<open>
  \<^verbatim>\<open>s.match(/[C]+/)\<close> with a regular expression that has no \<^verbatim>\<open>g\<close> flag: the leftmost
  match, extended greedily; \<^verbatim>\<open>null\<close> when no character of the class occurs.
\<close>

definition match_class :: "(char \<Rightarrow> bool) \<Rightarrow> string \<Rightarrow> string option" where
  "match_class C s =
     (let m = takeWhile C (dropWhile (\<lambda>c. \<not> C c) s)
      in if m = [] then None else Some m)"

text \<open>\<^verbatim>\<open>s.replace(/[C]+/g, '')\<close>: every character of the class is deleted.\<close>

definition remove_class :: "(char \<Rightarrow> bool) \<Rightarrow> string \<Rightarrow> string" where
  "remove_class C s = filter (\<lambda>c. \<not> C c) s"

text \<open>\<^verbatim>\<open>s.trim()\<close>.\<close>

definition trim :: "string \<Rightarrow> string" where
  "trim s = rev (dropWhile isSpace (rev (dropWhile isSpace s)))"

text \<open>\<^verbatim>\<open>a || b\<close> on strings: the empty string is the only falsy string.\<close>

definition orElse :: "string \<Rightarrow> string \<Rightarrow> string" where
  "orElse a b = (if a = [] then b else a)"

section \<open>Numbers: \<^verbatim>\<open>parseFloat\<close>, \<^verbatim>\<open>Infinity\<close>, \<^verbatim>\<open>NaN\<close> and \<^verbatim>\<open><\<close>\<close>

text \<open>
  A JavaScript number is a double: \<^verbatim>\<open>NaN\<close>, a finite value or \<^verbatim>\<open>Infinity\<close> (negative
  values and \<^verbatim>\<open>-Infinity\<close> cannot arise from the scans below). A finite double is kept
  as the real number it denotes.
\<close>

datatype number = NaN | Finite real | Infinity

text \<open>\<^verbatim>\<open>a < b\<close>: false as soon as one side is \<^verbatim>\<open>NaN\<close>.\<close>

fun js_less :: "number \<Rightarrow> number \<Rightarrow> bool" where
  "js_less NaN b = False"
| "js_less a NaN = False"
| "js_less (Finite x) (Finite y) = (x < y)"
| "js_less (Finite x) Infinity = True"
| "js_less Infinity b = False"

definition digitVal :: "char \<Rightarrow> nat" where
  "digitVal c = of_char c - 48"

definition digitsVal :: "string \<Rightarrow> nat" where
  "digitsVal ds = foldl (\<lambda>acc c. 10 * acc + digitVal c) 0 ds"

text \<open>
  The double nearest to the fraction \<open>n / d\<close> (\<open>d\<close> positive), as the conversion of a
  decimal literal gives it: round to nearest, ties to even, with 53 significant bits for
  a normal value, the fixed step \<^verbatim>\<open>2^-1074\<close> below \<^verbatim>\<open>2^-1022\<close>, and \<^verbatim>\<open>Infinity\<close>
  once the rounded value reaches \<^verbatim>\<open>2^1024\<close>.
\<close>

text \<open>The number of binary digits of \<open>n\<close>.\<close>

fun bitLength :: "nat \<Rightarrow> nat" where
  "bitLength n = (if n = 0 then 0 else Suc (bitLength (n div 2)))"

declare bitLength.simps [simp del]

text \<open>
  The exponent \<open>e\<close> for which \<open>n / d\<close> lies between \<^verbatim>\<open>2^e\<close> (included) and
  \<^verbatim>\<open>2^(e+1)\<close> (excluded), for positive \<open>n\<close> and \<open>d\<close>.
\<close>

definition binaryExponent :: "nat \<Rightarrow> nat \<Rightarrow> int" where
  "binaryExponent n d =
     (let e0 = int (bitLength n) - int (bitLength d)
      in if (if 0 \<le> e0 then d * 2 ^ nat e0 \<le> n else d \<le> n * 2 ^ nat (- e0)) then e0
         else e0 - 1)"

text \<open>The integer nearest to \<open>n / d\<close>, the even one of two that are equally near.\<close>

definition roundHalfEven :: "nat \<Rightarrow> nat \<Rightarrow> nat" where
  "roundHalfEven n d =
     (let q = n div d; r = n mod d
      in if 2 * r < d then q else if d < 2 * r then q + 1 else if even q then q else q + 1)"

definition toDouble :: "nat \<Rightarrow> nat \<Rightarrow> number" where
  "toDouble n d =
     (if n = 0 then Finite 0
      else
        (let e = binaryExponent n d;
             qe = max e (- 1022) - 52;
             m = (if 0 \<le> qe then roundHalfEven n (d * 2 ^ nat qe)
                  else roundHalfEven (n * 2 ^ nat (- qe)) d)
         in if 0 \<le> qe then
              (if 2 ^ 1024 \<le> m * 2 ^ nat qe then Infinity else Finite (real (m * 2 ^ nat qe)))
            else Finite (real m / 2 ^ nat (- qe))))"

text \<open>
  \<^verbatim>\<open>parseFloat(s)\<close> on the strings it is given here, which hold digits and periods only
  (the commas, or everything but digits and periods, have been deleted before): the
  longest prefix of the form digits, digits \<^verbatim>\<open>.\<close> digits or \<^verbatim>\<open>.\<close> digits is read, the
  result is \<^verbatim>\<open>NaN\<close> when that prefix holds no digit, and otherwise the double nearest
  to the decimal that was read.
\<close>

definition parseFloat :: "string \<Rightarrow> number" where
  "parseFloat s =
     (let ip = takeWhile isDigit s;
          rest = dropWhile isDigit s;
          fp = (case rest of [] \<Rightarrow> [] | c # t \<Rightarrow> if c = CHR ''.'' then takeWhile isDigit t else [])
      in if ip = [] \<and> fp = [] then NaN
         else toDouble (digitsVal (ip @ fp)) (10 ^ length fp))"

section \<open>The records of \<^verbatim>\<open>index.ts\<close>\<close>

record DatePrice =
  date :: string
  weekday :: string
  price :: string
  currency :: string
  isSelected :: bool

text \<open>
  The objects of the \<^verbatim>\<open>timeOptions\<close> array and the \<^verbatim>\<open>additionalInfo\<close> object,
  which the script leaves untyped.
\<close>

record TimeOption =
  departureTime :: string
  arrivalTime :: string
  price :: string
  flightNumber :: string
  fromCity :: string
  toCity :: string

record AdditionalInfo =
  route :: string
  directInfo :: string
  dateInfo :: string
  fromAirport :: string
  toAirport :: string

text \<open>
  \<^verbatim>\<open>FlightData\<close>. The offers of the alternative-selector extractor carry one more
  property, \<^verbatim>\<open>containerText\<close>, which the others do not have.
\<close>

record FlightData =
  flightNumber :: string
  departureTime :: string
  arrivalTime :: string
  price :: string
  currency :: string
  duration :: string
  fromAirport :: string
  toAirport :: string
  containerText :: "string option"

record FlightPriceResult =
  flights :: "FlightData list"
  datePrices :: "DatePrice list"

section \<open>Splitting a price text\<close>

text \<open>
  \<^verbatim>\<open>index.ts\<close>, date items:
  \<^verbatim>\<open>
  const priceMatch = priceText.match(/[\d,.]+/);
  const currencyMatch = priceText.match(/[^\d\s,.]+/);
  const price = priceMatch ? priceMatch[0] : 'N/A';
  const currency = currencyMatch ? currencyMatch[0] : 'N/A';
  \<close>
  The result is the pair (price, currency).
\<close>

definition parseMoney_datePrice :: "string \<Rightarrow> string \<times> string" where
  "parseMoney_datePrice priceText =
     (let priceMatch = match_class isAmountChar priceText;
          currencyMatch = match_class isSymbolChar priceText
      in (case priceMatch of Some m \<Rightarrow> m | None \<Rightarrow> ''N/A'',
          case currencyMatch of Some m \<Rightarrow> m | None \<Rightarrow> ''N/A''))"

text \<open>
  \<^verbatim>\<open>index.ts\<close>, flight cards (and the alternative-selector extractor):
  \<^verbatim>\<open>
  const currencyMatch = price.match(/[^\d\s,.]+/);
  const currency = currencyMatch ? currencyMatch[0] : '';
  \<close>
\<close>

definition currency_flightCard :: "string \<Rightarrow> string" where
  "currency_flightCard priceText =
     (case match_class isSymbolChar priceText of Some m \<Rightarrow> m | None \<Rightarrow> '''')"

text \<open>
  The scan as the specification words it, for comparison: the longest of the maximal runs
  of characters of a class (the first one among equally long runs).
\<close>

fun runsFrom :: "(char \<Rightarrow> bool) \<Rightarrow> string \<Rightarrow> string \<Rightarrow> string list" where
  "runsFrom C cur [] = (if cur = [] then [] else [rev cur])"
| "runsFrom C cur (c # cs) =
     (if C c then runsFrom C (c # cur) cs
      else (if cur = [] then [] else [rev cur]) @ runsFrom C [] cs)"

definition spec_longestRun :: "(char \<Rightarrow> bool) \<Rightarrow> string \<Rightarrow> string option" where
  "spec_longestRun C s =
     (case runsFrom C [] s of
        [] \<Rightarrow> None
      | r # rs \<Rightarrow> Some (foldl (\<lambda>best x. if length best < length x then x else best) r rs))"

section \<open>The cheapest flight\<close>

text \<open>
  \<^verbatim>\<open>index.ts\<close> and \<^verbatim>\<open>index3.ts\<close>:
  \<^verbatim>\<open>
  const getPriceNumeric = (price: string) => {
    const matches = price.match(/[\d,.]+/);
    return matches ? parseFloat(matches[0].replace(/,/g, '')) : Infinity;
  };
  \<close>
\<close>

definition getPriceNumeric :: "string \<Rightarrow> number" where
  "getPriceNumeric p =
     (case match_class isAmountChar p of
        Some m \<Rightarrow> parseFloat (remove_class (\<lambda>c. c = CHR '','') m)
      | None \<Rightarrow> Infinity)"

text \<open>
  The second script of \<^verbatim>\<open>index.ts\<close>:
  \<^verbatim>\<open>parseFloat(min.price.replace(/[^0-9.]/g, '')) || Infinity\<close>;
  \<^verbatim>\<open>NaN\<close> and \<^verbatim>\<open>0\<close> are the falsy numbers. The offers of that script have fewer
  fields; its comparison reads the price only.
\<close>

definition getPriceNumeric2 :: "string \<Rightarrow> number" where
  "getPriceNumeric2 p =
     (let v = parseFloat (remove_class (\<lambda>c. \<not> (isDigit c \<or> c = CHR ''.'')) p)
      in if v = NaN \<or> v = Finite 0 then Infinity else v)"

text \<open>
  The callback of \<^verbatim>\<open>flights.reduce((min, flight) => ...)\<close>:
  \<^verbatim>\<open>return priceA < priceB ? min : flight;\<close>
  (the accumulator \<^verbatim>\<open>min\<close> is written \<open>cur\<close>).
\<close>

definition pickCheaper :: "FlightData \<Rightarrow> FlightData \<Rightarrow> FlightData" where
  "pickCheaper cur flight =
     (let priceA = getPriceNumeric (FlightData.price cur);
          priceB = getPriceNumeric (FlightData.price flight)
      in if js_less priceA priceB then cur else flight)"

definition pickCheaper2 :: "FlightData \<Rightarrow> FlightData \<Rightarrow> FlightData" where
  "pickCheaper2 cur flight =
     (let priceA = getPriceNumeric2 (FlightData.price cur);
          priceB = getPriceNumeric2 (FlightData.price flight)
      in if js_less priceA priceB then cur else flight)"

text \<open>
  \<^verbatim>\<open>if (flights.length > 0) { cheapestFlight = flights.reduce(...) } else { ... }\<close>:
  \<^verbatim>\<open>reduce\<close> without an initial value starts from the first element and folds the rest
  from the left; on the empty list no flight is chosen.
\<close>

definition cheapestFlight :: "FlightData list \<Rightarrow> FlightData option" where
  "cheapestFlight fs =
     (case fs of [] \<Rightarrow> None | f # rest \<Rightarrow> Some (foldl pickCheaper f rest))"

definition cheapestFlight2 :: "FlightData list \<Rightarrow> FlightData option" where
  "cheapestFlight2 fs =
     (case fs of [] \<Rightarrow> None | f # rest \<Rightarrow> Some (foldl pickCheaper2 f rest))"

text \<open>An offer that carries only a flight number and a price text, for examples.\<close>

definition offer :: "string \<Rightarrow> string \<Rightarrow> FlightData" where
  "offer n p =
     \<lparr>FlightData.flightNumber = n, FlightData.departureTime = ''N/A'',
      FlightData.arrivalTime = ''N/A'', FlightData.price = p,
      FlightData.currency = currency_flightCard p, FlightData.duration = ''N/A'',
      FlightData.fromAirport = ''BUD'', FlightData.toAirport = ''MAN'',
      FlightData.containerText = None\<rparr>"

text \<open>The three offers of the specification's example.\<close>

definition threeOffers :: "FlightData list" where
  "threeOffers = [offer ''FR1'' ''89 Ft'', offer ''FR2'' ''45 Ft'', offer ''FR3'' ''N/A'']"

section \<open>The page\<close>

text \<open>
  The page is one snapshot, read through the query capability of the browser:
  \<^verbatim>\<open>querySelectorAll\<close> under the document or under an element (the matches in document
  order), the \<^verbatim>\<open>textContent\<close> of an element (never \<^verbatim>\<open>null\<close> for an element) and its
  \<^verbatim>\<open>classList\<close>. Elements are handles; selectors are the strings of the script.
\<close>

type_synonym element = nat

datatype scope = Document | Element element

record dom =
  querySelectorAll :: "scope \<Rightarrow> string \<Rightarrow> element list"
  textContent :: "element \<Rightarrow> string"
  classList :: "element \<Rightarrow> string list"

text \<open>\<^verbatim>\<open>querySelector\<close>: the first match, or \<^verbatim>\<open>null\<close>.\<close>

definition querySelector :: "dom \<Rightarrow> scope \<Rightarrow> string \<Rightarrow> element option" where
  "querySelector d sc sel = (case querySelectorAll d sc sel of [] \<Rightarrow> None | e # es \<Rightarrow> Some e)"

text \<open>
  \<^verbatim>\<open>el ? el.textContent?.trim() || dflt : dflt\<close>, which is also
  \<^verbatim>\<open>sc.querySelector(sel)?.textContent?.trim() || dflt\<close>.
\<close>

definition textOr :: "dom \<Rightarrow> scope \<Rightarrow> string \<Rightarrow> string \<Rightarrow> string" where
  "textOr d sc sel dflt =
     (case querySelector d sc sel of
        None \<Rightarrow> dflt
      | Some e \<Rightarrow> orElse (trim (textContent d e)) dflt)"

text \<open>\<^verbatim>\<open>el ? el.textContent?.trim() : dflt\<close>: an empty text stays empty.\<close>

definition textOrRaw :: "dom \<Rightarrow> scope \<Rightarrow> string \<Rightarrow> string \<Rightarrow> string" where
  "textOrRaw d sc sel dflt =
     (case querySelector d sc sel of
        None \<Rightarrow> dflt
      | Some e \<Rightarrow> trim (textContent d e))"

text \<open>\<^verbatim>\<open>els[i]?.textContent?.trim() || dflt\<close>: an index out of range reads \<^verbatim>\<open>undefined\<close>.\<close>

definition nthTextOr :: "dom \<Rightarrow> element list \<Rightarrow> nat \<Rightarrow> string \<Rightarrow> string" where
  "nthTextOr d els i dflt =
     (if i < length els then orElse (trim (textContent d (els ! i))) dflt else dflt)"

text \<open>\<^verbatim>\<open>els.length > 1 ? els[1]?.textContent?.trim() : dflt\<close>.\<close>

definition secondTextOr :: "dom \<Rightarrow> element list \<Rightarrow> string \<Rightarrow> string" where
  "secondTextOr d els dflt =
     (if length els > 1 then trim (textContent d (els ! 1)) else dflt)"

text \<open>\<^verbatim>\<open>selectors.join(',')\<close>.\<close>

fun join_comma :: "string list \<Rightarrow> string" where
  "join_comma [] = []"
| "join_comma [s] = s"
| "join_comma (s # t # ss) = s @ '','' @ join_comma (t # ss)"

section \<open>Date prices (\<^verbatim>\<open>index.ts\<close>)\<close>

text \<open>
  The callback of \<^verbatim>\<open>Array.from(dateItems).map(item => ...)\<close>: the selected state is a
  class of the item; day, month and weekday fall back to the empty string, the price
  text to \<^verbatim>\<open>'N/A'\<close>; the date is day, a space, month.
\<close>

definition datePriceText :: "dom \<Rightarrow> element \<Rightarrow> string" where
  "datePriceText d item = textOr d (Element item) ''.date-item__price'' ''N/A''"

definition datePriceOf :: "dom \<Rightarrow> element \<Rightarrow> DatePrice" where
  "datePriceOf d item =
     (let sel = (''date-item--selected'' \<in> set (classList d item));
          day = textOr d (Element item) ''.date-item__day-of-month'' [];
          month = textOr d (Element item) ''.date-item__month'' [];
          wd = textOr d (Element item) ''.date-item__day-of-week'' [];
          pc = parseMoney_datePrice (datePriceText d item)
      in \<lparr>date = day @ '' '' @ month, weekday = wd, DatePrice.price = fst pc,
          DatePrice.currency = snd pc, isSelected = sel\<rparr>)"

definition eval_datePrices :: "dom \<Rightarrow> DatePrice list" where
  "eval_datePrices d = map (datePriceOf d) (querySelectorAll d Document ''.date-item'')"

section \<open>Time options (\<^verbatim>\<open>index.ts\<close>)\<close>

definition timeSlotSelector :: string where
  "timeSlotSelector = ''.flight-header__min-price, .flight-info, .journey-info''"

definition timeOptionOf :: "dom \<Rightarrow> element \<Rightarrow> TimeOption" where
  "timeOptionOf d slot =
     (let times = querySelectorAll d (Element slot) ''.flight-info__hour'';
          cities = querySelectorAll d (Element slot) ''.flight-info__city''
      in \<lparr>TimeOption.departureTime = nthTextOr d times 0 ''N/A'',
          TimeOption.arrivalTime = nthTextOr d times 1 ''N/A'',
          TimeOption.price = textOrRaw d (Element slot) ''.price, .amount, .fare'' ''N/A'',
          TimeOption.flightNumber =
            textOrRaw d (Element slot) ''.card-flight-num__content'' ''N/A'',
          fromCity = nthTextOr d cities 0 ''N/A'',
          toCity = nthTextOr d cities 1 ''N/A''\<rparr>)"

definition eval_timeOptions :: "dom \<Rightarrow> TimeOption list" where
  "eval_timeOptions d = map (timeOptionOf d) (querySelectorAll d Document timeSlotSelector)"

section \<open>Flight cards (\<^verbatim>\<open>index.ts\<close>)\<close>

definition flightCardSelector :: string where
  \<open>flightCardSelector = ''[data-e2e="flight-card"], .flight-card, .card-flight''\<close>

definition departureSelector :: string where
  \<open>departureSelector = ''[data-ref="flight-segment.departure"] .flight-info__hour''\<close>

definition arrivalSelector :: string where
  \<open>arrivalSelector = ''[data-ref="flight-segment.arrival"] .flight-info__hour''\<close>

definition cardPriceSelector :: string where
  \<open>cardPriceSelector =
     ''[data-e2e="flight-card-price"], .flight-card__price, .card-flight__price, .price''\<close>

definition cardDurationSelector :: string where
  \<open>cardDurationSelector =
     ''[data-ref="flight_duration"], .flight-card__duration, .card-flight__duration, .flight-time''\<close>

text \<open>
  The callback of \<^verbatim>\<open>flightCards.map(card => ...)\<close>. The price is the trimmed text of the
  price element (\<^verbatim>\<open>'N/A'\<close> without one, or when it is empty); the airports are the
  arguments of the call. The parameter \<^verbatim>\<open>card\<close> is written \<open>cardEl\<close>.
\<close>

definition flightOfCard :: "dom \<Rightarrow> string \<Rightarrow> string \<Rightarrow> element \<Rightarrow> FlightData" where
  "flightOfCard d origin destination cardEl =
     (let p = textOr d (Element cardEl) cardPriceSelector ''N/A''
      in \<lparr>FlightData.flightNumber =
            textOr d (Element cardEl) ''.card-flight-num__content'' ''N/A'',
          FlightData.departureTime = textOr d (Element cardEl) departureSelector ''N/A'',
          FlightData.arrivalTime = textOr d (Element cardEl) arrivalSelector ''N/A'',
          FlightData.price = p,
          FlightData.currency = currency_flightCard p,
          FlightData.duration = textOr d (Element cardEl) cardDurationSelector ''N/A'',
          FlightData.fromAirport = origin,
          FlightData.toAirport = destination,
          FlightData.containerText = None\<rparr>)"

definition eval_flights :: "dom \<Rightarrow> string \<Rightarrow> string \<Rightarrow> FlightData list" where
  "eval_flights d origin destination =
     map (flightOfCard d origin destination) (querySelectorAll d Document flightCardSelector)"

section \<open>The alternative selectors (\<^verbatim>\<open>index.ts\<close>)\<close>

definition containerSelector :: string where
  \<open>containerSelector =
     ''div[class*="flight"], div[class*="card"], tr[class*="flight"], div[class*="journey"]''\<close>

definition timeSelectors :: "string list" where
  \<open>timeSelectors = [''[class*="time"]'', ''[class*="hour"]'', ''strong'', ''.bold'']\<close>

definition priceSelectors :: "string list" where
  \<open>priceSelectors = [''[class*="price"]'', ''[class*="amount"]'', ''[class*="fare"]'']\<close>

definition flightNumberSelectors :: "string list" where
  \<open>flightNumberSelectors =
     [''[class*="flight-number"]'', ''[class*="number"]'', ''[class*="code"]'']\<close>

definition airportSelectors :: "string list" where
  \<open>airportSelectors = [''[class*="airport"]'', ''[class*="station"]'', ''[class*="code"]'']\<close>

definition durationSelectors :: "string list" where
  \<open>durationSelectors = [''[class*="duration"]'', ''[class*="time"]'', ''[class*="length"]'']\<close>

text \<open>
  \<^verbatim>\<open>
  const getText = (container, selector) => {
    const element = container.querySelector(selector);
    return element ? element.textContent?.trim() : null;
  };
  \<close>
\<close>

definition getText :: "dom \<Rightarrow> element \<Rightarrow> string \<Rightarrow> string option" where
  "getText d container selector =
     (case querySelector d (Element container) selector of
        None \<Rightarrow> None
      | Some e \<Rightarrow> Some (trim (textContent d e)))"

text \<open>
  \<^verbatim>\<open>
  const getTextMultiSelector = (container, selectors) => {
    for (const selector of selectors) {
      const text = getText(container, selector);
      if (text) return text;
    }
    return 'N/A';
  };
  \<close>
  The loop, with the selectors it has queried so far: the result is the text returned and
  the list of the selectors that were evaluated, in order.
\<close>

fun getTextMultiSelector_from ::
  "dom \<Rightarrow> element \<Rightarrow> string list \<Rightarrow> string list \<Rightarrow> string \<times> string list" where
  "getTextMultiSelector_from d container queried [] = (''N/A'', queried)"
| "getTextMultiSelector_from d container queried (selector # rest) =
     (case getText d container selector of
        Some t \<Rightarrow>
          if t \<noteq> [] then (t, queried @ [selector])
          else getTextMultiSelector_from d container (queried @ [selector]) rest
      | None \<Rightarrow> getTextMultiSelector_from d container (queried @ [selector]) rest)"

definition getTextMultiSelector :: "dom \<Rightarrow> element \<Rightarrow> string list \<Rightarrow> string" where
  "getTextMultiSelector d container selectors =
     fst (getTextMultiSelector_from d container [] selectors)"

definition evaluatedSelectors :: "dom \<Rightarrow> element \<Rightarrow> string list \<Rightarrow> string list" where
  "evaluatedSelectors d container selectors =
     snd (getTextMultiSelector_from d container [] selectors)"

text \<open>
  The callback of \<^verbatim>\<open>allFlightContainers.map(container => ...)\<close>: an offer when the
  container has both a time element and a price element, \<^verbatim>\<open>null\<close> otherwise.
\<close>

definition hasTime :: "dom \<Rightarrow> element \<Rightarrow> bool" where
  "hasTime d container =
     (querySelector d (Element container) (join_comma timeSelectors) \<noteq> None)"

definition hasPrice :: "dom \<Rightarrow> element \<Rightarrow> bool" where
  "hasPrice d container =
     (querySelector d (Element container) (join_comma priceSelectors) \<noteq> None)"

definition flightOfContainer :: "dom \<Rightarrow> element \<Rightarrow> FlightData option" where
  "flightOfContainer d container =
     (if hasTime d container \<and> hasPrice d container then
        (let times = querySelectorAll d (Element container) (join_comma timeSelectors);
             p = getTextMultiSelector d container priceSelectors;
             airports = querySelectorAll d (Element container) (join_comma airportSelectors)
         in Some
              \<lparr>FlightData.flightNumber = getTextMultiSelector d container flightNumberSelectors,
               FlightData.departureTime = nthTextOr d times 0 ''N/A'',
               FlightData.arrivalTime = secondTextOr d times ''N/A'',
               FlightData.price = p,
               FlightData.currency = currency_flightCard p,
               FlightData.duration = getTextMultiSelector d container durationSelectors,
               FlightData.fromAirport = nthTextOr d airports 0 ''N/A'',
               FlightData.toAirport = secondTextOr d airports ''N/A'',
               FlightData.containerText = Some (take 100 (trim (textContent d container)))\<rparr>)
      else None)"

text \<open>\<^verbatim>\<open>allFlightContainers.map(...).filter(item => item !== null)\<close>.\<close>

definition eval_moreFlights :: "dom \<Rightarrow> FlightData list" where
  "eval_moreFlights d =
     List.map_filter (flightOfContainer d) (querySelectorAll d Document containerSelector)"

text \<open>
  A strategy of the cascade succeeds on a container when its selector matches an element
  there and the trimmed text of the first match is not empty.
\<close>

definition strategySucceeds :: "dom \<Rightarrow> element \<Rightarrow> string \<Rightarrow> bool" where
  "strategySucceeds d container selector =
     (case querySelector d (Element container) selector of
        None \<Rightarrow> False
      | Some e \<Rightarrow> trim (textContent d e) \<noteq> [])"

text \<open>
  The container selector of the alternative extractor, read on the markup. The queries
  above take a selector as it is written; for this one selector the elements it matches
  are also described from the tags and classes of the page: all elements in document
  order, and the tag of each (its \<^verbatim>\<open>localName\<close>, in lower case).
\<close>

record markup =
  allElements :: "element list"
  localName :: "element \<Rightarrow> string"

text \<open>\<open>pat\<close> occurs in \<open>s\<close> as a contiguous part.\<close>

fun containsStr :: "string \<Rightarrow> string \<Rightarrow> bool" where
  "containsStr pat [] = (pat = [])"
| "containsStr pat (c # cs) = (take (length pat) (c # cs) = pat \<or> containsStr pat cs)"

text \<open>
  \<^verbatim>\<open>[class*="tok"]\<close>: the class attribute contains \<open>tok\<close>; for a token without a
  space, that is some class of the element contains it.
\<close>

definition classContains :: "dom \<Rightarrow> element \<Rightarrow> string \<Rightarrow> bool" where
  "classContains d e tok = list_ex (containsStr tok) (classList d e)"

text \<open>
  \<^verbatim>\<open>div[class*="flight"], div[class*="card"], tr[class*="flight"], div[class*="journey"]\<close>
\<close>

definition matchesContainerSelector :: "dom \<Rightarrow> markup \<Rightarrow> element \<Rightarrow> bool" where
  "matchesContainerSelector d m e =
     (localName m e = ''div'' \<and> classContains d e ''flight'' \<or>
      localName m e = ''div'' \<and> classContains d e ''card'' \<or>
      localName m e = ''tr'' \<and> classContains d e ''flight'' \<or>
      localName m e = ''div'' \<and> classContains d e ''journey'')"

text \<open>The page answers the container selector as its markup says.\<close>

definition containerQueryOK :: "dom \<Rightarrow> markup \<Rightarrow> bool" where
  "containerQueryOK d m =
     (querySelectorAll d Document containerSelector =
        filter (matchesContainerSelector d m) (allElements m))"

text \<open>
  The elements the specification speaks of: all elements whose class attribute contains
  a flight, card or journey token, whatever their tag.
\<close>

definition spec_flightLikeClass :: "dom \<Rightarrow> element \<Rightarrow> bool" where
  "spec_flightLikeClass d e =
     (classContains d e ''flight'' \<or> classContains d e ''card'' \<or> classContains d e ''journey'')"

section \<open>Reconciling the sources (\<^verbatim>\<open>index.ts\<close>)\<close>

text \<open>
  \<^verbatim>\<open>if (flights.length === 0) { ... if (moreFlights && moreFlights.length > 0)
  flights.push(...moreFlights); }\<close>
\<close>

definition withAlternatives :: "dom \<Rightarrow> FlightData list \<Rightarrow> FlightData list" where
  "withAlternatives d fl =
     (if length fl = 0 then
        (let moreFlights = eval_moreFlights d
         in if length moreFlights > 0 then fl @ moreFlights else fl)
      else fl)"

text \<open>The page-level details read when the selected date price is used.\<close>

definition eval_additionalInfo :: "dom \<Rightarrow> AdditionalInfo" where
  "eval_additionalInfo d =
     \<lparr>route = textOrRaw d Document ''.flight-header__route, .route-title'' [],
      directInfo =
        textOrRaw d Document ''.flight-header__stops, .flight-header__direct'' [],
      dateInfo = textOrRaw d Document ''.flight-header__date'' [],
      AdditionalInfo.fromAirport =
        textOrRaw d Document
          ''.flight-header__airport-code--from, .airport-code:first-child'' [],
      AdditionalInfo.toAirport =
        textOrRaw d Document
          ''.flight-header__airport-code--to, .airport-code:last-child'' []\<rparr>"

text \<open>The generic flight entry pushed for the selected date price.\<close>

definition genericFlight ::
  "DatePrice \<Rightarrow> AdditionalInfo \<Rightarrow> string \<Rightarrow> string \<Rightarrow> FlightData" where
  "genericFlight selectedDatePrice additionalInfo origin destination =
     \<lparr>FlightData.flightNumber = orElse (directInfo additionalInfo) ''Direct'',
      FlightData.departureTime = ''Check website'',
      FlightData.arrivalTime = ''Check website'',
      FlightData.price = DatePrice.price selectedDatePrice,
      FlightData.currency = remove_class isAmountOrSpace (DatePrice.price selectedDatePrice),
      FlightData.duration = ''Check website'',
      FlightData.fromAirport = orElse (AdditionalInfo.fromAirport additionalInfo) origin,
      FlightData.toAirport = orElse (AdditionalInfo.toAirport additionalInfo) destination,
      FlightData.containerText = None\<rparr>"

text \<open>
  \<^verbatim>\<open>
  if (flights.length === 0 && datePrices.length > 0) {
    const selectedDatePrice = datePrices.find(item => item.isSelected);
    if (selectedDatePrice) { ... flights.push({...}); }
  }
  \<close>
\<close>

definition withSelectedDatePrice ::
  "dom \<Rightarrow> string \<Rightarrow> string \<Rightarrow> FlightData list \<Rightarrow> DatePrice list \<Rightarrow> FlightData list" where
  "withSelectedDatePrice d origin destination fl dps =
     (if length fl = 0 \<and> length dps > 0 then
        (case find isSelected dps of
           Some selectedDatePrice \<Rightarrow>
             fl @ [genericFlight selectedDatePrice (eval_additionalInfo d) origin destination]
         | None \<Rightarrow> fl)
      else fl)"

text \<open>The callback of \<^verbatim>\<open>timeOptions.forEach((option) => flights.push({...}))\<close>.\<close>

definition flightOfTimeOption :: "string \<Rightarrow> string \<Rightarrow> TimeOption \<Rightarrow> FlightData" where
  "flightOfTimeOption origin destination option =
     \<lparr>FlightData.flightNumber = orElse (TimeOption.flightNumber option) ''Direct flight'',
      FlightData.departureTime = TimeOption.departureTime option,
      FlightData.arrivalTime = TimeOption.arrivalTime option,
      FlightData.price = TimeOption.price option,
      FlightData.currency =
        orElse (remove_class isAmountOrSpace (TimeOption.price option)) ''Ft'',
      FlightData.duration = ''See website'',
      FlightData.fromAirport = origin,
      FlightData.toAirport = destination,
      FlightData.containerText = None\<rparr>"

text \<open>
  \<^verbatim>\<open>
  if (flights.length === 1 && flights[0].departureTime === 'Check website'
      && timeOptions.length > 0) {
    flights = [];
    timeOptions.forEach(...);
  }
  \<close>
\<close>

definition usesTimeOptions :: "FlightData list \<Rightarrow> TimeOption list \<Rightarrow> bool" where
  "usesTimeOptions fl tos =
     (length fl = 1 \<and> FlightData.departureTime (fl ! 0) = ''Check website'' \<and> length tos > 0)"

definition withTimeOptions ::
  "string \<Rightarrow> string \<Rightarrow> FlightData list \<Rightarrow> TimeOption list \<Rightarrow> FlightData list" where
  "withTimeOptions origin destination fl tos =
     (if usesTimeOptions fl tos then map (flightOfTimeOption origin destination) tos else fl)"

text \<open>
  The body of \<^verbatim>\<open>checkRyanairPrice\<close> from the extraction of the date prices to the
  \<^verbatim>\<open>return\<close>, on one snapshot of the page. No operation of this part can throw: every
  element is tested before its text is read, and every index is guarded.
\<close>

definition cardFlights :: "dom \<Rightarrow> string \<Rightarrow> string \<Rightarrow> FlightData list" where
  "cardFlights d origin destination = withAlternatives d (eval_flights d origin destination)"

definition fallbackFlights :: "dom \<Rightarrow> string \<Rightarrow> string \<Rightarrow> FlightData list" where
  "fallbackFlights d origin destination =
     withSelectedDatePrice d origin destination (cardFlights d origin destination)
       (eval_datePrices d)"

definition extractFlightPrices :: "dom \<Rightarrow> string \<Rightarrow> string \<Rightarrow> FlightPriceResult" where
  "extractFlightPrices d origin destination =
     \<lparr>flights =
        withTimeOptions origin destination (fallbackFlights d origin destination)
          (eval_timeOptions d),
      datePrices = eval_datePrices d\<rparr>"

text \<open>
  Before that part, \<^verbatim>\<open>checkRyanairPrice\<close> waits for the prices:
  \<^verbatim>\<open>await page.waitForSelector('.date-item__price', { timeout: 30000 })\<close> rejects when no
  such element appears, and the rejection is thrown again by the \<^verbatim>\<open>catch\<close> block. On
  a page that does not change, the wait succeeds exactly when the element is there.
\<close>

datatype fault = TimeoutError

definition checkRyanairPrice :: "dom \<Rightarrow> string \<Rightarrow> string \<Rightarrow> fault + FlightPriceResult" where
  "checkRyanairPrice d origin destination =
     (if querySelector d Document ''.date-item__price'' = None then Inl TimeoutError
      else Inr (extractFlightPrices d origin destination))"

section \<open>The same steps in \<^verbatim>\<open>index3.ts\<close>\<close>

record DatePrice3 =
  date :: string
  day :: string
  price :: string
  isSelected :: bool

record FlightData3 =
  flightNumber :: string
  departureTime :: string
  arrivalTime :: string
  price :: string
  currency :: string
  duration :: string

record FlightPriceResult3 =
  flights :: "FlightData3 list"
  datePrices :: "DatePrice3 list"

definition datePriceOf3 :: "dom \<Rightarrow> element \<Rightarrow> DatePrice3" where
  "datePriceOf3 d item =
     \<lparr>DatePrice3.date = textOr d (Element item) ''.date-item__day-month'' [],
      day = textOr d (Element item) ''.date-item__day'' [],
      DatePrice3.price = textOr d (Element item) ''.date-item__price'' ''N/A'',
      DatePrice3.isSelected = (''date-item--selected'' \<in> set (classList d item))\<rparr>"

definition eval_datePrices3 :: "dom \<Rightarrow> DatePrice3 list" where
  "eval_datePrices3 d = map (datePriceOf3 d) (querySelectorAll d Document ''.date-item'')"

definition flightOfCard3 :: "dom \<Rightarrow> element \<Rightarrow> FlightData3" where
  \<open>flightOfCard3 d cardEl =
     (let priceText =
            textOr d (Element cardEl) ''[data-e2e="flight-card-price"], .flight-card__price''
              ''N/A''
      in \<lparr>FlightData3.flightNumber =
            textOr d (Element cardEl)
              ''[data-e2e="flight-card-flight-number"], .flight-card__flight-number'' ''N/A'',
          FlightData3.departureTime =
            textOr d (Element cardEl)
              ''[data-e2e="flight-card-departure-time"], .flight-card__departure-time'' ''N/A'',
          FlightData3.arrivalTime =
            textOr d (Element cardEl)
              ''[data-e2e="flight-card-arrival-time"], .flight-card__arrival-time'' ''N/A'',
          FlightData3.price = priceText,
          FlightData3.currency = currency_flightCard priceText,
          FlightData3.duration =
            textOr d (Element cardEl)
              ''[data-e2e="flight-card-duration"], .flight-card__duration'' ''N/A''\<rparr>)\<close>

definition eval_flights3 :: "dom \<Rightarrow> FlightData3 list" where
  \<open>eval_flights3 d =
     map (flightOfCard3 d)
       (querySelectorAll d Document ''[data-e2e="flight-card"], .flight-card'')\<close>

definition genericFlight3 :: "DatePrice3 \<Rightarrow> FlightData3" where
  "genericFlight3 selectedDatePrice =
     \<lparr>FlightData3.flightNumber = ''N/A'',
      FlightData3.departureTime = ''N/A'',
      FlightData3.arrivalTime = ''N/A'',
      FlightData3.price = DatePrice3.price selectedDatePrice,
      FlightData3.currency = remove_class isAmountOrSpace (DatePrice3.price selectedDatePrice),
      FlightData3.duration = ''N/A''\<rparr>"

definition withSelectedDatePrice3 :: "FlightData3 list \<Rightarrow> DatePrice3 list \<Rightarrow> FlightData3 list" where
  "withSelectedDatePrice3 fl dps =
     (if length fl = 0 \<and> length dps > 0 then
        (case find DatePrice3.isSelected dps of
           Some selectedDatePrice \<Rightarrow> fl @ [genericFlight3 selectedDatePrice]
         | None \<Rightarrow> fl)
      else fl)"

definition extractFlightPrices3 :: "dom \<Rightarrow> FlightPriceResult3" where
  "extractFlightPrices3 d =
     \<lparr>FlightPriceResult3.flights = withSelectedDatePrice3 (eval_flights3 d) (eval_datePrices3 d),
      FlightPriceResult3.datePrices = eval_datePrices3 d\<rparr>"

section \<open>Example pages\<close>

text \<open>A page given by the table of its non-empty queries, its texts and its classes.\<close>

definition pageOf ::
  "((scope \<times> string) \<times> element list) list \<Rightarrow> (element \<times> string) list \<Rightarrow>
   (element \<times> string list) list \<Rightarrow> dom" where
  "pageOf qs ts cs =
     \<lparr>querySelectorAll = (\<lambda>sc sel. case map_of qs (sc, sel) of Some es \<Rightarrow> es | None \<Rightarrow> []),
      textContent = (\<lambda>e. case map_of ts e of Some t \<Rightarrow> t | None \<Rightarrow> []),
      classList = (\<lambda>e. case map_of cs e of Some c \<Rightarrow> c | None \<Rightarrow> [])\<rparr>"

text \<open>The page on which no selector matches anything.\<close>

definition emptyPage :: dom where
  "emptyPage = pageOf [] [] []"

text \<open>
  One selected date item and nothing else:
  \<^verbatim>\<open>
  <div class="date-item date-item--selected">          (element 1)
    <span class="date-item__price"> 45 Ft </span>      (element 2)
  </div>
  \<close>
\<close>

definition selectedDatePage :: dom where
  "selectedDatePage =
     pageOf
       [((Document, ''.date-item''), [1]),
        ((Document, ''.date-item__price''), [2]),
        ((Element 1, ''.date-item__price''), [2])]
       [(1, '' 45 Ft ''), (2, '' 45 Ft '')]
       [(1, [''date-item'', ''date-item--selected'']), (2, [''date-item__price''])]"

text \<open>
  The same date item, followed by two time slots that show hours but no price:
  \<^verbatim>\<open>
  <div class="flight-info">                            (element 3)
    <span class="flight-info__hour">06:00</span>       (element 4)
    <span class="flight-info__hour">08:00</span>       (element 5)
  </div>
  <div class="flight-info">                            (element 6)
    <span class="flight-info__hour">17:00</span>       (element 7)
    <span class="flight-info__hour">19:00</span>       (element 8)
  </div>
  \<close>
  The two slots are among the containers of the alternative selectors (a \<^verbatim>\<open>div\<close> whose
  class contains \<^verbatim>\<open>flight\<close>); each has time elements and no price element.
\<close>

definition timeSlotPage :: dom where
  "timeSlotPage =
     pageOf
       [((Document, ''.date-item''), [1]),
        ((Document, ''.date-item__price''), [2]),
        ((Element 1, ''.date-item__price''), [2]),
        ((Document, timeSlotSelector), [3, 6]),
        ((Document, containerSelector), [3, 6]),
        ((Element 3, ''.flight-info__hour''), [4, 5]),
        ((Element 6, ''.flight-info__hour''), [7, 8]),
        ((Element 3, join_comma timeSelectors), [4, 5]),
        ((Element 6, join_comma timeSelectors), [7, 8])]
       [(1, '' 45 Ft ''), (2, '' 45 Ft ''), (3, ''06:0008:00''), (4, ''06:00''),
        (5, ''08:00''), (6, ''17:0019:00''), (7, ''17:00''), (8, ''19:00'')]
       [(1, [''date-item'', ''date-item--selected'']), (2, [''date-item__price'']),
        (3, [''flight-info'']), (4, [''flight-info__hour'']), (5, [''flight-info__hour'']),
        (6, [''flight-info'']), (7, [''flight-info__hour'']), (8, [''flight-info__hour''])]"

text \<open>
  One flight card whose departure element shows the text \<open>dep\<close>, and one date item:
  \<^verbatim>\<open>
  <div class="flight-card">                                            (element 1)
    <div class="flight-info" data-ref="flight-segment.departure">      (element 2)
      <span class="flight-info__hour">dep</span>                       (element 3)
    </div>
    <span class="price">45 Ft</span>                                   (element 4)
  </div>
  <div class="date-item">                                              (element 5)
    <span class="date-item__price">45 Ft</span>                        (element 6)
  </div>
  \<close>
  The inner \<^verbatim>\<open>flight-info\<close> element is also the one time slot of the page.
\<close>

definition cardPage :: "string \<Rightarrow> dom" where
  "cardPage dep =
     pageOf
       [((Document, flightCardSelector), [1]),
        ((Element 1, departureSelector), [3]),
        ((Element 1, cardPriceSelector), [4]),
        ((Document, timeSlotSelector), [2]),
        ((Element 2, ''.flight-info__hour''), [3]),
        ((Document, containerSelector), [1, 2]),
        ((Document, ''.date-item''), [5]),
        ((Document, ''.date-item__price''), [6]),
        ((Element 5, ''.date-item__price''), [6])]
       [(1, dep @ ''45 Ft''), (2, dep), (3, dep), (4, ''45 Ft''), (5, ''45 Ft''),
        (6, ''45 Ft'')]
       [(1, [''flight-card'']), (2, [''flight-info'']), (3, [''flight-info__hour'']),
        (4, [''price'']), (5, [''date-item'']), (6, [''date-item__price''])]"

text \<open>The markup given by the tags of the elements, in document order.\<close>

definition markupOf :: "(element \<times> string) list \<Rightarrow> markup" where
  "markupOf tags =
     \<lparr>allElements = map fst tags,
      localName = (\<lambda>e. case map_of tags e of Some t \<Rightarrow> t | None \<Rightarrow> [])\<rparr>"

text \<open>
  No flight card, but three containers of the alternative selectors; only the first has
  both a time element and a price element, the second has a price only, the third a
  time only:
  \<^verbatim>\<open>
  <div class="journey-row">                            (element 1)
    <strong>06:00</strong>                             (element 2)
    <span class="fare-amount">45 Ft</span>             (element 3)
  </div>
  <div class="card-banner">                            (element 4)
    <span class="promo-price">from 9 Ft</span>         (element 5)
  </div>
  <div class="date-item">                              (element 6)
    <span class="date-item__price">45 Ft</span>        (element 7)
  </div>
  <div class="flight-note">                            (element 8)
    <strong>07:15</strong>                             (element 9)
  </div>
  \<close>
\<close>

definition journeyPage :: dom where
  \<open>journeyPage =
     pageOf
       [((Document, containerSelector), [1, 4, 8]),
        ((Element 1, join_comma timeSelectors), [2]),
        ((Element 1, join_comma priceSelectors), [3]),
        ((Element 1, ''[class*="amount"]''), [3]),
        ((Element 1, ''[class*="fare"]''), [3]),
        ((Element 4, join_comma priceSelectors), [5]),
        ((Element 4, ''[class*="price"]''), [5]),
        ((Element 8, join_comma timeSelectors), [9]),
        ((Document, ''.date-item''), [6]),
        ((Document, ''.date-item__price''), [7]),
        ((Element 6, ''.date-item__price''), [7])]
       [(1, ''06:0045 Ft''), (2, ''06:00''), (3, ''45 Ft''), (4, ''from 9 Ft''),
        (5, ''from 9 Ft''), (6, ''45 Ft''), (7, ''45 Ft''), (8, ''07:15''), (9, ''07:15'')]
       [(1, [''journey-row'']), (3, [''fare-amount'']), (4, [''card-banner'']),
        (5, [''promo-price'']), (6, [''date-item'']), (7, [''date-item__price'']),
        (8, [''flight-note''])]\<close>

definition journeyMarkup :: markup where
  "journeyMarkup =
     markupOf
       [(1, ''div''), (2, ''strong''), (3, ''span''), (4, ''div''), (5, ''span''),
        (6, ''div''), (7, ''span''), (8, ''div''), (9, ''strong'')]"

text \<open>
  An element whose class contains \<^verbatim>\<open>flight\<close> and which holds a time element and a
  price element, but which is a \<^verbatim>\<open>span\<close>, not a \<^verbatim>\<open>div\<close>:
  \<^verbatim>\<open>
  <span class="flight-row">                            (element 1)
    <strong>06:00</strong>                             (element 2)
    <span class="fare-amount">45 Ft</span>             (element 3)
  </span>
  <div class="date-item">                              (element 4)
    <span class="date-item__price">45 Ft</span>        (element 5)
  </div>
  \<close>
\<close>

definition spanPage :: dom where
  \<open>spanPage =
     pageOf
       [((Element 1, join_comma timeSelectors), [2]),
        ((Element 1, join_comma priceSelectors), [3]),
        ((Element 1, ''[class*="amount"]''), [3]),
        ((Element 1, ''[class*="fare"]''), [3]),
        ((Document, ''.date-item''), [4]),
        ((Document, ''.date-item__price''), [5]),
        ((Element 4, ''.date-item__price''), [5])]
       [(1, ''06:0045 Ft''), (2, ''06:00''), (3, ''45 Ft''), (4, ''45 Ft''), (5, ''45 Ft'')]
       [(1, [''flight-row'']), (3, [''fare-amount'']), (4, [''date-item'']),
        (5, [''date-item__price''])]\<close>

definition spanMarkup :: markup where
  "spanMarkup =
     markupOf [(1, ''span''), (2, ''strong''), (3, ''span''), (4, ''div''), (5, ''span'')]"

section \<open>Facts about the scans\<close>

lemmas text_defs = isDigit_def isSpace_def isAmountChar_def isAmountOrSpace_def
  isSymbolChar_def match_class_def remove_class_def trim_def orElse_def

lemmas number_defs = parseFloat_def toDouble_def binaryExponent_def roundHalfEven_def
  bitLength.simps digitsVal_def digitVal_def getPriceNumeric_def getPriceNumeric2_def Let_def

lemmas query_defs = pageOf_def querySelector_def textOr_def textOrRaw_def nthTextOr_def
  secondTextOr_def getText_def

lemmas selector_defs = timeSlotSelector_def flightCardSelector_def departureSelector_def
  arrivalSelector_def cardPriceSelector_def cardDurationSelector_def containerSelector_def
  timeSelectors_def priceSelectors_def flightNumberSelectors_def airportSelectors_def
  durationSelectors_def

lemmas extract_defs = datePriceText_def datePriceOf_def eval_datePrices_def
  parseMoney_datePrice_def currency_flightCard_def timeOptionOf_def eval_timeOptions_def
  flightOfCard_def eval_flights_def getTextMultiSelector_def evaluatedSelectors_def
  hasTime_def hasPrice_def flightOfContainer_def eval_moreFlights_def
  withAlternatives_def eval_additionalInfo_def genericFlight_def
  withSelectedDatePrice_def flightOfTimeOption_def usesTimeOptions_def withTimeOptions_def
  cardFlights_def fallbackFlights_def extractFlightPrices_def checkRyanairPrice_def
  datePriceOf3_def eval_datePrices3_def flightOfCard3_def eval_flights3_def
  genericFlight3_def withSelectedDatePrice3_def extractFlightPrices3_def Let_def

lemma match_class_None_iff: "match_class C s = None \<longleftrightarrow> list_all (\<lambda>c. \<not> C c) s"
proof -
  let ?d = "dropWhile (\<lambda>c. \<not> C c) s"
  have "takeWhile C ?d = [] \<longleftrightarrow> ?d = []"
  proof (cases ?d)
    case Nil
    show ?thesis by (simp only: Nil takeWhile.simps)
  next
    case (Cons x xs)
    then have "C x" using hd_dropWhile [of "\<lambda>c. \<not> C c" s] by simp
    with Cons show ?thesis by simp
  qed
  moreover have "?d = [] \<longleftrightarrow> list_all (\<lambda>c. \<not> C c) s"
    by (simp add: list_all_iff dropWhile_eq_Nil_conv)
  ultimately show ?thesis
    by (simp add: match_class_def Let_def)
qed

text \<open>A match is the leftmost maximal run of the class.\<close>

lemma match_class_SomeD:
  assumes "match_class C s = Some m"
  shows "m \<noteq> [] \<and> list_all C m \<and>
         (\<exists>pre post. s = pre @ m @ post \<and> list_all (\<lambda>c. \<not> C c) pre \<and>
            (post = [] \<or> \<not> C (hd post)))"
proof -
  let ?pre = "takeWhile (\<lambda>c. \<not> C c) s"
  let ?rest = "dropWhile (\<lambda>c. \<not> C c) s"
  let ?post = "dropWhile C ?rest"
  from assms have m: "m = takeWhile C ?rest" and ne: "m \<noteq> []"
    by (auto simp: match_class_def Let_def split: if_splits)
  have "s = ?pre @ m @ ?post" by (simp add: m)
  moreover have "list_all (\<lambda>c. \<not> C c) ?pre"
    by (auto simp: list_all_iff dest: set_takeWhileD)
  moreover have "list_all C m"
    by (auto simp: m list_all_iff dest: set_takeWhileD)
  moreover have "?post = [] \<or> \<not> C (hd ?post)"
    using hd_dropWhile [of C ?rest] by blast
  ultimately show ?thesis using ne by blast
qed

text \<open>Conversely, the leftmost maximal run is the match: the description is exact.\<close>

lemma match_class_SomeI:
  assumes "s = pre @ m @ post" "list_all (\<lambda>c. \<not> C c) pre" "m \<noteq> []" "list_all C m"
    "post = [] \<or> \<not> C (hd post)"
  shows "match_class C s = Some m"
proof -
  from assms(3,4) have hdm: "C (hd m)" by (cases m) auto
  have "dropWhile (\<lambda>c. \<not> C c) s = m @ post"
    using assms(1,2,3) hdm
    by (cases m) (auto simp: list_all_iff dropWhile_append)
  moreover have "takeWhile C (m @ post) = m"
    using assms(4,5) by (cases post) (auto simp: list_all_iff takeWhile_append)
  ultimately show ?thesis using assms(3) by (simp add: match_class_def)
qed

lemma amount_not_symbol: "isAmountChar c \<Longrightarrow> \<not> isSymbolChar c"
  by (auto simp: isAmountChar_def isSymbolChar_def isAmountOrSpace_def)

lemma currency_in_price:
  assumes "currency_flightCard p \<noteq> []"
  shows "\<exists>pre post. p = pre @ currency_flightCard p @ post"
proof (cases "match_class isSymbolChar p")
  case None
  with assms show ?thesis by (simp add: currency_flightCard_def)
next
  case (Some m)
  from match_class_SomeD [OF Some] obtain pre post where "p = pre @ m @ post" by blast
  with Some show ?thesis by (auto simp: currency_flightCard_def)
qed

section \<open>Claim C2: splitting a price text\<close>

text \<open>
  Claim C2, as amended. For every text, the amount is the leftmost maximal run of digit,
  comma and period characters (not the longest run of the text), or \<^verbatim>\<open>N/A\<close> when the
  text has no such character. Independently, the currency is the leftmost maximal run of
  characters that are not digit, white space, comma or period; when the text has no such
  character, the date items store \<^verbatim>\<open>N/A\<close> and the flight cards store the empty string.
\<close>

theorem parseMoney_first_run:
  "(list_ex isAmountChar t \<longrightarrow>
      (\<exists>pre post. t = pre @ fst (parseMoney_datePrice t) @ post \<and>
         list_all (\<lambda>c. \<not> isAmountChar c) pre \<and>
         fst (parseMoney_datePrice t) \<noteq> [] \<and>
         list_all isAmountChar (fst (parseMoney_datePrice t)) \<and>
         (post = [] \<or> \<not> isAmountChar (hd post)))) \<and>
   (\<not> list_ex isAmountChar t \<longrightarrow> fst (parseMoney_datePrice t) = ''N/A'') \<and>
   (list_ex isSymbolChar t \<longrightarrow>
      snd (parseMoney_datePrice t) = currency_flightCard t \<and>
      (\<exists>pre post. t = pre @ currency_flightCard t @ post \<and>
         list_all (\<lambda>c. \<not> isSymbolChar c) pre \<and>
         currency_flightCard t \<noteq> [] \<and>
         list_all isSymbolChar (currency_flightCard t) \<and>
         (post = [] \<or> \<not> isSymbolChar (hd post)))) \<and>
   (\<not> list_ex isSymbolChar t \<longrightarrow>
      snd (parseMoney_datePrice t) = ''N/A'' \<and> currency_flightCard t = [])"
proof (intro conjI impI)
  have ex_iff: "\<And>C. list_ex C t \<longleftrightarrow> match_class C t \<noteq> None"
    by (simp add: match_class_None_iff list_ex_iff list_all_iff)
  {
    assume "list_ex isAmountChar t"
    then obtain m where m: "match_class isAmountChar t = Some m" using ex_iff by auto
    then have "fst (parseMoney_datePrice t) = m" by (simp add: parseMoney_datePrice_def)
    with match_class_SomeD [OF m]
    show "\<exists>pre post. t = pre @ fst (parseMoney_datePrice t) @ post \<and>
         list_all (\<lambda>c. \<not> isAmountChar c) pre \<and>
         fst (parseMoney_datePrice t) \<noteq> [] \<and>
         list_all isAmountChar (fst (parseMoney_datePrice t)) \<and>
         (post = [] \<or> \<not> isAmountChar (hd post))"
      by auto
  }
  {
    assume "\<not> list_ex isAmountChar t"
    then have "match_class isAmountChar t = None" using ex_iff by simp
    then show "fst (parseMoney_datePrice t) = ''N/A''" by (simp add: parseMoney_datePrice_def)
  }
  {
    assume "list_ex isSymbolChar t"
    then obtain m where m: "match_class isSymbolChar t = Some m" using ex_iff by auto
    then have c: "currency_flightCard t = m" by (simp add: currency_flightCard_def)
    from m show "snd (parseMoney_datePrice t) = currency_flightCard t"
      by (simp add: parseMoney_datePrice_def currency_flightCard_def)
    from match_class_SomeD [OF m] c
    show "\<exists>pre post. t = pre @ currency_flightCard t @ post \<and>
         list_all (\<lambda>c. \<not> isSymbolChar c) pre \<and>
         currency_flightCard t \<noteq> [] \<and>
         list_all isSymbolChar (currency_flightCard t) \<and>
         (post = [] \<or> \<not> isSymbolChar (hd post))"
      by auto
  }
  {
    assume "\<not> list_ex isSymbolChar t"
    then have n: "match_class isSymbolChar t = None" using ex_iff by simp
    then show "snd (parseMoney_datePrice t) = ''N/A''" by (simp add: parseMoney_datePrice_def)
    from n show "currency_flightCard t = []" by (simp add: currency_flightCard_def)
  }
qed

text \<open>
  The theorem at the text \<^verbatim>\<open>12 345 Ft\<close>: the amount is \<^verbatim>\<open>12\<close>, the first run, and the
  currency is \<^verbatim>\<open>Ft\<close>.
\<close>

theorem parseMoney_first_run_witness:
  "parseMoney_datePrice ''12 345 Ft'' = (''12'', ''Ft'') \<and>
   (\<exists>pre post. ''12 345 Ft'' = pre @ fst (parseMoney_datePrice ''12 345 Ft'') @ post \<and>
      list_all (\<lambda>c. \<not> isAmountChar c) pre \<and> (post = [] \<or> \<not> isAmountChar (hd post))) \<and>
   snd (parseMoney_datePrice ''12 345 Ft'') = currency_flightCard ''12 345 Ft''"
proof -
  have a: "list_ex isAmountChar ''12 345 Ft''" by (simp add: text_defs)
  have b: "list_ex isSymbolChar ''12 345 Ft''" by (simp add: text_defs)
  have c: "parseMoney_datePrice ''12 345 Ft'' = (''12'', ''Ft'')"
    by (simp add: parseMoney_datePrice_def text_defs)
  from parseMoney_first_run [of "''12 345 Ft''"] a b
  have "(\<exists>pre post. ''12 345 Ft'' = pre @ fst (parseMoney_datePrice ''12 345 Ft'') @ post \<and>
      list_all (\<lambda>c. \<not> isAmountChar c) pre \<and> (post = [] \<or> \<not> isAmountChar (hd post))) \<and>
   snd (parseMoney_datePrice ''12 345 Ft'') = currency_flightCard ''12 345 Ft''"
    by blast
  with c show ?thesis by blast
qed

text \<open>
  The claim as the specification states it fails twice. In \<^verbatim>\<open>12 345 Ft\<close> the longest run
  of amount characters is \<^verbatim>\<open>345\<close>, and the amount is \<^verbatim>\<open>12\<close>. In \<^verbatim>\<open>45\<close> there is no
  currency character, and the currency of a date item is \<^verbatim>\<open>N/A\<close>, not the empty string.
\<close>

theorem parseMoney_longest_counterexample:
  "fst (parseMoney_datePrice ''12 345 Ft'') = ''12'' \<and>
   spec_longestRun isAmountChar ''12 345 Ft'' = Some ''345'' \<and>
   list_ex isSymbolChar ''45'' = False \<and>
   snd (parseMoney_datePrice ''45'') = ''N/A''"
  by (simp add: parseMoney_datePrice_def spec_longestRun_def text_defs)

section \<open>Claims C1 and C6: the cheapest flight\<close>

lemma js_less_chain1:
  "a \<noteq> NaN \<Longrightarrow> b \<noteq> NaN \<Longrightarrow> c \<noteq> NaN \<Longrightarrow> \<not> js_less a b \<Longrightarrow> \<not> js_less c a \<Longrightarrow>
   \<not> js_less c b"
  by (cases a; cases b; cases c) auto

lemma js_less_chain2:
  "a \<noteq> NaN \<Longrightarrow> b \<noteq> NaN \<Longrightarrow> c \<noteq> NaN \<Longrightarrow> \<not> js_less a b \<Longrightarrow> js_less a c \<Longrightarrow>
   \<not> js_less c b"
  by (cases a; cases b; cases c) auto

text \<open>
  The fold keeps the last of the offers of least numeric price, as long as no price is
  read as \<^verbatim>\<open>NaN\<close>: every offer before the result is at least as expensive, every
  offer after it is strictly more expensive.
\<close>

lemma foldl_pickCheaper:
  assumes "\<forall>f\<in>set (a # xs). getPriceNumeric (FlightData.price f) \<noteq> NaN"
  shows "\<exists>pre post. a # xs = pre @ foldl pickCheaper a xs # post \<and>
           (\<forall>f\<in>set pre. \<not> js_less (getPriceNumeric (FlightData.price f))
                               (getPriceNumeric (FlightData.price (foldl pickCheaper a xs)))) \<and>
           (\<forall>f\<in>set post. js_less (getPriceNumeric (FlightData.price (foldl pickCheaper a xs)))
                               (getPriceNumeric (FlightData.price f)))"
  using assms
proof (induction xs rule: rev_induct)
  case Nil
  have "[a] = [] @ a # []" by simp
  then show ?case by fastforce
next
  case (snoc x xs)
  let ?n = "\<lambda>f. getPriceNumeric (FlightData.price f)"
  let ?r = "foldl pickCheaper a xs"
  from snoc obtain pre post where
    dec: "a # xs = pre @ ?r # post" and
    pre: "\<forall>f\<in>set pre. \<not> js_less (?n f) (?n ?r)" and
    post: "\<forall>f\<in>set post. js_less (?n ?r) (?n f)"
    by auto
  have nn: "\<And>f. f \<in> set (a # xs @ [x]) \<Longrightarrow> ?n f \<noteq> NaN" using snoc.prems by blast
  have rin: "?r \<in> set (a # xs)" using dec by (metis in_set_conv_decomp)
  have nr: "?n ?r \<noteq> NaN" using nn rin by auto
  have nx: "?n x \<noteq> NaN" using nn by auto
  show ?case
  proof (cases "js_less (?n ?r) (?n x)")
    case True
    then have res: "foldl pickCheaper a (xs @ [x]) = ?r" by (simp add: pickCheaper_def)
    have "a # xs @ [x] = pre @ ?r # (post @ [x])" using dec by simp
    moreover have "\<forall>f\<in>set (post @ [x]). js_less (?n ?r) (?n f)" using post True by auto
    ultimately show ?thesis using pre unfolding res by blast
  next
    case False
    then have res: "foldl pickCheaper a (xs @ [x]) = x" by (simp add: pickCheaper_def)
    have d: "a # xs @ [x] = (a # xs) @ x # []" by simp
    have "\<forall>f\<in>set (a # xs). \<not> js_less (?n f) (?n x)"
    proof
      fix f assume f: "f \<in> set (a # xs)"
      then have nf: "?n f \<noteq> NaN" using nn by auto
      from f dec have "f \<in> set pre \<or> f = ?r \<or> f \<in> set post"
        by (metis Un_iff set_ConsD set_append)
      then show "\<not> js_less (?n f) (?n x)"
      proof (elim disjE)
        assume "f \<in> set pre"
        then have "\<not> js_less (?n f) (?n ?r)" using pre by blast
        with False show ?thesis using js_less_chain1 [OF nr nx nf] by blast
      next
        assume "f = ?r" with False show ?thesis
          using nr nx by (cases "?n ?r"; cases "?n x") auto
      next
        assume "f \<in> set post"
        then have "js_less (?n ?r) (?n f)" using post by blast
        with False show ?thesis using js_less_chain2 [OF nr nx nf] by blast
      qed
    qed
    then show ?thesis unfolding res using d by (metis empty_iff list.set(1))
  qed
qed

lemma getPriceNumeric_examples:
  "getPriceNumeric ''89 Ft'' = Finite 89"
  "getPriceNumeric ''45 Ft'' = Finite 45"
  "getPriceNumeric ''N/A'' = Infinity"
  "getPriceNumeric ''1,234.50 Ft'' = Finite (2469 / 2)"
  "getPriceNumeric ''Sold out.'' = NaN"
  "getPriceNumeric ''0.3 Ft'' = Finite (5404319552844595 / 18014398509481984)"
  "getPriceNumeric ''0.30000000000000001 Ft'' = Finite (5404319552844595 / 18014398509481984)"
  by (simp_all add: number_defs text_defs)

text \<open>A value too large for a double is read as \<^verbatim>\<open>Infinity\<close>.\<close>

lemma toDouble_overflow: "toDouble (10 ^ 309) 1 = Infinity"
  by (simp add: number_defs)

text \<open>
  Claim C1, as amended. On the empty list no flight is chosen. On a non-empty list in
  which no price is read as \<^verbatim>\<open>NaN\<close>, the left-to-right scan returns an offer of least
  numeric price, and among offers of equal least price it keeps the last one met (the
  callback keeps the accumulator only when it is strictly cheaper): every earlier offer
  is at least as expensive, every later offer strictly more expensive. The numeric price
  is the double that \<^verbatim>\<open>getPriceNumeric\<close> reads, so price texts that round to the same
  double are equal. Over three offers priced \<^verbatim>\<open>89 Ft\<close>, \<^verbatim>\<open>45 Ft\<close> and \<^verbatim>\<open>N/A\<close> the
  result is the one priced \<^verbatim>\<open>45 Ft\<close>.
\<close>

theorem cheapestFlight_minimum_last:
  "cheapestFlight [] = None \<and>
   (fs \<noteq> [] \<and> (\<forall>f\<in>set fs. getPriceNumeric (FlightData.price f) \<noteq> NaN) \<longrightarrow>
      (\<exists>pre r post. fs = pre @ r # post \<and> cheapestFlight fs = Some r \<and>
         (\<forall>f\<in>set pre. \<not> js_less (getPriceNumeric (FlightData.price f))
                             (getPriceNumeric (FlightData.price r))) \<and>
         (\<forall>f\<in>set post. js_less (getPriceNumeric (FlightData.price r))
                             (getPriceNumeric (FlightData.price f))))) \<and>
   (FlightData.price a = ''89 Ft'' \<and> FlightData.price b = ''45 Ft'' \<and>
    FlightData.price c = ''N/A'' \<longrightarrow> cheapestFlight [a, b, c] = Some b)"
proof (intro conjI impI)
  show "cheapestFlight [] = None" by (simp add: cheapestFlight_def)
next
  assume h: "fs \<noteq> [] \<and> (\<forall>f\<in>set fs. getPriceNumeric (FlightData.price f) \<noteq> NaN)"
  then obtain x xs where fs: "fs = x # xs" by (cases fs) auto
  with h have "\<forall>f\<in>set (x # xs). getPriceNumeric (FlightData.price f) \<noteq> NaN" by simp
  from foldl_pickCheaper [OF this]
  show "\<exists>pre r post. fs = pre @ r # post \<and> cheapestFlight fs = Some r \<and>
         (\<forall>f\<in>set pre. \<not> js_less (getPriceNumeric (FlightData.price f))
                             (getPriceNumeric (FlightData.price r))) \<and>
         (\<forall>f\<in>set post. js_less (getPriceNumeric (FlightData.price r))
                             (getPriceNumeric (FlightData.price f)))"
    unfolding fs cheapestFlight_def by (simp only: list.case) blast
next
  assume "FlightData.price a = ''89 Ft'' \<and> FlightData.price b = ''45 Ft'' \<and>
    FlightData.price c = ''N/A''"
  then show "cheapestFlight [a, b, c] = Some b"
    by (simp add: cheapestFlight_def pickCheaper_def getPriceNumeric_examples)
qed

text \<open>The theorem at the three offers of the specification.\<close>

theorem cheapestFlight_minimum_last_witness:
  "\<exists>pre r post.
     threeOffers = pre @ r # post \<and> cheapestFlight threeOffers = Some r \<and>
     r = offer ''FR2'' ''45 Ft'' \<and>
     list_all (\<lambda>f. \<not> js_less (getPriceNumeric (FlightData.price f))
                            (getPriceNumeric (FlightData.price r))) pre \<and>
     list_all (\<lambda>f. js_less (getPriceNumeric (FlightData.price r))
                          (getPriceNumeric (FlightData.price f))) post"
proof -
  note t = cheapestFlight_minimum_last
    [of threeOffers "offer ''FR1'' ''89 Ft''" "offer ''FR2'' ''45 Ft''" "offer ''FR3'' ''N/A''"]
  have h: "threeOffers \<noteq> [] \<and>
      (\<forall>f\<in>set threeOffers. getPriceNumeric (FlightData.price f) \<noteq> NaN)"
    by (simp add: threeOffers_def offer_def getPriceNumeric_examples)
  have p: "FlightData.price (offer ''FR1'' ''89 Ft'') = ''89 Ft'' \<and>
      FlightData.price (offer ''FR2'' ''45 Ft'') = ''45 Ft'' \<and>
      FlightData.price (offer ''FR3'' ''N/A'') = ''N/A''"
    by (simp add: offer_def)
  have e: "cheapestFlight threeOffers = Some (offer ''FR2'' ''45 Ft'')"
    unfolding threeOffers_def by (rule mp [OF conjunct2 [OF conjunct2 [OF t]] p])
  from mp [OF conjunct1 [OF conjunct2 [OF t]] h] obtain pre r post where
    r: "threeOffers = pre @ r # post" "cheapestFlight threeOffers = Some r"
      "\<forall>f\<in>set pre. \<not> js_less (getPriceNumeric (FlightData.price f))
                             (getPriceNumeric (FlightData.price r))"
      "\<forall>f\<in>set post. js_less (getPriceNumeric (FlightData.price r))
                             (getPriceNumeric (FlightData.price f))"
    by (elim exE conjE)
  from r(2) e have "r = offer ''FR2'' ''45 Ft''" by (simp only: option.inject)
  with r have "threeOffers = pre @ r # post \<and> cheapestFlight threeOffers = Some r \<and>
     r = offer ''FR2'' ''45 Ft'' \<and>
     list_all (\<lambda>f. \<not> js_less (getPriceNumeric (FlightData.price f))
                            (getPriceNumeric (FlightData.price r))) pre \<and>
     list_all (\<lambda>f. js_less (getPriceNumeric (FlightData.price r))
                          (getPriceNumeric (FlightData.price f))) post"
    by (simp only: list_all_iff simp_thms)
  then show ?thesis by (intro exI)
qed

text \<open>
  The claim as the specification states it fails on a tie: of two offers with the same
  price the second is returned, not the first.
\<close>

theorem cheapestFlight_tie_counterexample:
  "getPriceNumeric (FlightData.price (offer ''FR1'' ''45 Ft'')) =
     getPriceNumeric (FlightData.price (offer ''FR2'' ''45 Ft'')) \<and>
   offer ''FR1'' ''45 Ft'' \<noteq> offer ''FR2'' ''45 Ft'' \<and>
   cheapestFlight [offer ''FR1'' ''45 Ft'', offer ''FR2'' ''45 Ft''] =
     Some (offer ''FR2'' ''45 Ft'')"
  by (simp add: cheapestFlight_def pickCheaper_def offer_def getPriceNumeric_examples)

text \<open>
  Two different price texts that round to the same double are a tie as well: the second
  offer is returned.
\<close>

lemma cheapestFlight_rounded_tie:
  "cheapestFlight [offer ''FR1'' ''0.3 Ft'', offer ''FR2'' ''0.30000000000000001 Ft''] =
     Some (offer ''FR2'' ''0.30000000000000001 Ft'')"
  by (simp add: cheapestFlight_def pickCheaper_def offer_def getPriceNumeric_examples)

text \<open>
  A price text without any amount character (such as \<^verbatim>\<open>N/A\<close>) is read as
  \<^verbatim>\<open>Infinity\<close>, and \<^verbatim>\<open>Infinity\<close> loses against every finite price, on either side
  of the comparison.
\<close>

lemma getPriceNumeric_no_amount:
  "list_all (\<lambda>c. \<not> isAmountChar c) p \<Longrightarrow> getPriceNumeric p = Infinity"
  by (simp add: getPriceNumeric_def match_class_None_iff [symmetric])

lemma pickCheaper_Infinity:
  assumes "getPriceNumeric (FlightData.price f) = Finite x"
    "getPriceNumeric (FlightData.price g) = Infinity"
  shows "pickCheaper f g = f" and "pickCheaper g f = f"
  using assms by (simp_all add: pickCheaper_def)

text \<open>
  Claim C6 on the failing input. A price text whose first run of amount characters holds
  no digit, such as \<^verbatim>\<open>Sold out.\<close> (the run is the final period), is read by
  \<^verbatim>\<open>getPriceNumeric\<close> as \<^verbatim>\<open>NaN\<close>, not as \<^verbatim>\<open>Infinity\<close>; every comparison with \<^verbatim>\<open>NaN\<close>
  is false, so the callback returns that offer, and it is reported as the cheapest flight
  ahead of an offer priced \<^verbatim>\<open>45 Ft\<close>. The second script of \<^verbatim>\<open>index.ts\<close> turns \<^verbatim>\<open>NaN\<close>
  into \<^verbatim>\<open>Infinity\<close> and chooses the offer priced \<^verbatim>\<open>45 Ft\<close>.
\<close>

theorem getPriceNumeric_NaN_wins:
  "getPriceNumeric ''Sold out.'' = NaN \<and>
   getPriceNumeric ''45 Ft'' = Finite 45 \<and>
   cheapestFlight [offer ''FR1'' ''45 Ft'', offer ''FR2'' ''Sold out.''] =
     Some (offer ''FR2'' ''Sold out.'') \<and>
   getPriceNumeric2 ''Sold out.'' = Infinity \<and>
   cheapestFlight2 [offer ''FR1'' ''45 Ft'', offer ''FR2'' ''Sold out.''] =
     Some (offer ''FR1'' ''45 Ft'')"
  by (simp add: cheapestFlight_def cheapestFlight2_def pickCheaper_def pickCheaper2_def
        offer_def number_defs text_defs)

section \<open>Claim C3: the selector cascade\<close>

lemma getTextMultiSelector_from_first:
  assumes "\<forall>p\<in>set pre. \<not> strategySucceeds d c p" "querySelector d (Element c) s = Some e"
    "trim (textContent d e) \<noteq> []"
  shows "getTextMultiSelector_from d c q (pre @ s # post) =
           (trim (textContent d e), q @ pre @ [s])"
  using assms
proof (induction pre arbitrary: q)
  case Nil
  then show ?case by (simp add: getText_def)
next
  case (Cons p pre)
  from Cons.prems(1) have np: "\<not> strategySucceeds d c p" by simp
  have "getTextMultiSelector_from d c q ((p # pre) @ s # post) =
        getTextMultiSelector_from d c (q @ [p]) (pre @ s # post)"
    using np by (simp add: strategySucceeds_def getText_def split: option.splits)
  also have "\<dots> = (trim (textContent d e), (q @ [p]) @ pre @ [s])"
    using Cons.IH [of "q @ [p]"] Cons.prems by simp
  finally show ?case by simp
qed

lemma getTextMultiSelector_from_none:
  assumes "\<forall>p\<in>set sels. \<not> strategySucceeds d c p"
  shows "getTextMultiSelector_from d c q sels = (''N/A'', q @ sels)"
  using assms
proof (induction sels arbitrary: q)
  case Nil
  then show ?case by simp
next
  case (Cons p sels)
  from Cons.prems have np: "\<not> strategySucceeds d c p" by simp
  have "getTextMultiSelector_from d c q (p # sels) =
        getTextMultiSelector_from d c (q @ [p]) sels"
    using np by (simp add: strategySucceeds_def getText_def split: option.splits)
  then show ?case using Cons.IH [of "q @ [p]"] Cons.prems by simp
qed

text \<open>
  Claim C3. The selectors are tried in the listed order. When \<open>s\<close> is the first selector
  that matches an element of the container whose trimmed text is not empty, that text is
  returned, and the selectors evaluated are those up to and including \<open>s\<close>: none of the
  later ones is evaluated. When no selector yields a non-empty text, the result is
  \<^verbatim>\<open>N/A\<close> (and all selectors have been evaluated).
\<close>

theorem getTextMultiSelector_cascade:
  "(sels = pre @ s # post \<and> (\<forall>p\<in>set pre. \<not> strategySucceeds d c p) \<and>
      querySelector d (Element c) s = Some e \<and> trim (textContent d e) \<noteq> [] \<longrightarrow>
      getTextMultiSelector d c sels = trim (textContent d e) \<and>
      evaluatedSelectors d c sels = pre @ [s]) \<and>
   ((\<forall>p\<in>set sels. \<not> strategySucceeds d c p) \<longrightarrow>
      getTextMultiSelector d c sels = ''N/A'' \<and> evaluatedSelectors d c sels = sels)"
  by (auto simp: getTextMultiSelector_def evaluatedSelectors_def
        getTextMultiSelector_from_first getTextMultiSelector_from_none)

text \<open>
  The theorem on the first container of \<open>journeyPage\<close> with the price selectors: the
  first selector matches nothing, the second yields \<^verbatim>\<open>45 Ft\<close>, and the third, which
  would succeed as well, is not evaluated.
\<close>

theorem getTextMultiSelector_cascade_witness:
  "getTextMultiSelector journeyPage 1 priceSelectors = ''45 Ft'' \<and>
   evaluatedSelectors journeyPage 1 priceSelectors = take 2 priceSelectors \<and>
   strategySucceeds journeyPage 1 (priceSelectors ! 2)"
proof -
  note t = getTextMultiSelector_cascade
    [where sels = priceSelectors and pre = "take 1 priceSelectors"
       and s = "priceSelectors ! 1" and post = "drop 2 priceSelectors"
       and d = journeyPage and c = 1 and e = 3]
  have h: "priceSelectors = take 1 priceSelectors @ priceSelectors ! 1 # drop 2 priceSelectors \<and>
      (\<forall>p\<in>set (take 1 priceSelectors). \<not> strategySucceeds journeyPage 1 p) \<and>
      querySelector journeyPage (Element 1) (priceSelectors ! 1) = Some 3 \<and>
      trim (textContent journeyPage 3) \<noteq> []"
    by (simp add: strategySucceeds_def journeyPage_def text_defs query_defs selector_defs)
  have a: "trim (textContent journeyPage 3) = ''45 Ft''"
    by (simp add: journeyPage_def text_defs query_defs)
  have b: "take 1 priceSelectors @ [priceSelectors ! 1] = take 2 priceSelectors"
    by (simp add: priceSelectors_def)
  have c: "strategySucceeds journeyPage 1 (priceSelectors ! 2)"
    by (simp add: strategySucceeds_def journeyPage_def text_defs query_defs selector_defs)
  from mp [OF conjunct1 [OF t] h] c show ?thesis
    unfolding a b by (intro conjI) (erule conjunct1, erule conjunct2, assumption)
qed

section \<open>Claim C7: a page without any match\<close>

text \<open>
  Claim C7. On a page where no selector matches anything under any scope, the
  extraction returns no flight and no date price. It is a total function of the page,
  with no error branch: every field that is looked up falls back to the default written
  at its place in the script (\<^verbatim>\<open>N/A\<close> or the empty string), and the cascade falls back
  to \<^verbatim>\<open>N/A\<close>: a date item without parts, a time slot without parts and the page-level
  details are records of such defaults (the date of the item is the single space that
  joins an empty day and an empty month).
\<close>

theorem extract_empty:
  "(\<forall>sc sel. querySelectorAll d sc sel = []) \<longrightarrow>
      extractFlightPrices d origin destination =
        \<lparr>FlightPriceResult.flights = [], FlightPriceResult.datePrices = []\<rparr> \<and>
      textOr d sc sel dflt = dflt \<and> textOrRaw d sc sel dflt = dflt \<and>
      nthTextOr d (querySelectorAll d sc sel) i dflt = dflt \<and>
      getTextMultiSelector d c sels = ''N/A'' \<and>
      datePriceOf d item =
        \<lparr>DatePrice.date = '' '', weekday = [], DatePrice.price = ''N/A'',
         DatePrice.currency = ''N/A'',
         DatePrice.isSelected = (''date-item--selected'' \<in> set (classList d item))\<rparr> \<and>
      timeOptionOf d slot =
        \<lparr>TimeOption.departureTime = ''N/A'', TimeOption.arrivalTime = ''N/A'',
         TimeOption.price = ''N/A'', TimeOption.flightNumber = ''N/A'',
         fromCity = ''N/A'', toCity = ''N/A''\<rparr> \<and>
      eval_additionalInfo d =
        \<lparr>route = [], directInfo = [], dateInfo = [], AdditionalInfo.fromAirport = [],
         AdditionalInfo.toAirport = []\<rparr>"
proof (intro conjI impI)
  assume e: "\<forall>sc sel. querySelectorAll d sc sel = []"
  then have q: "\<And>sc sel. querySelector d sc sel = None"
    by (simp add: querySelector_def)
  have "\<forall>p\<in>set sels. \<not> strategySucceeds d c p" by (simp add: strategySucceeds_def q)
  then show "getTextMultiSelector d c sels = ''N/A''"
    by (simp add: getTextMultiSelector_def getTextMultiSelector_from_none)
  show "extractFlightPrices d origin destination =
      \<lparr>FlightPriceResult.flights = [], FlightPriceResult.datePrices = []\<rparr>"
    using e
    by (simp add: extractFlightPrices_def fallbackFlights_def cardFlights_def eval_flights_def
          eval_datePrices_def eval_timeOptions_def withAlternatives_def eval_moreFlights_def
          withSelectedDatePrice_def withTimeOptions_def usesTimeOptions_def)
  show "textOr d sc sel dflt = dflt" by (simp add: textOr_def q)
  show "textOrRaw d sc sel dflt = dflt" by (simp add: textOrRaw_def q)
  show "nthTextOr d (querySelectorAll d sc sel) i dflt = dflt"
    using e by (simp add: nthTextOr_def)
  show "datePriceOf d item =
           \<lparr>DatePrice.date = '' '', weekday = [], DatePrice.price = ''N/A'',
            DatePrice.currency = ''N/A'',
            DatePrice.isSelected = (''date-item--selected'' \<in> set (classList d item))\<rparr>"
    by (simp add: datePriceOf_def datePriceText_def textOr_def q parseMoney_datePrice_def
          text_defs)
  show "timeOptionOf d slot =
           \<lparr>TimeOption.departureTime = ''N/A'', TimeOption.arrivalTime = ''N/A'',
            TimeOption.price = ''N/A'', TimeOption.flightNumber = ''N/A'',
            fromCity = ''N/A'', toCity = ''N/A''\<rparr>"
    using e by (simp add: timeOptionOf_def textOrRaw_def nthTextOr_def q)
  show "eval_additionalInfo d =
           \<lparr>route = [], directInfo = [], dateInfo = [], AdditionalInfo.fromAirport = [],
            AdditionalInfo.toAirport = []\<rparr>"
    by (simp add: eval_additionalInfo_def textOrRaw_def q)
qed

text \<open>The theorem on the empty page.\<close>

theorem extract_empty_witness:
  "extractFlightPrices emptyPage ''BUD'' ''MAN'' =
     \<lparr>FlightPriceResult.flights = [], FlightPriceResult.datePrices = []\<rparr>"
proof -
  have h: "\<forall>sc sel. querySelectorAll emptyPage sc sel = []"
    by (simp add: emptyPage_def pageOf_def)
  show ?thesis by (rule conjunct1 [OF mp [OF extract_empty h]])
qed

text \<open>
  The wait that precedes the extraction in \<^verbatim>\<open>checkRyanairPrice\<close> belongs to the
  handling of the browser around it: the extraction is entered once an element matching
  \<^verbatim>\<open>.date-item__price\<close> is on the page.
\<close>

lemma checkRyanairPrice_wait:
  "checkRyanairPrice d origin destination =
     (if querySelectorAll d Document ''.date-item__price'' = [] then Inl TimeoutError
      else Inr (extractFlightPrices d origin destination))"
  by (simp add: checkRyanairPrice_def querySelector_def split: list.splits)

section \<open>Claim C8: the alternative selectors\<close>

lemma flightOfContainer_iff:
  "(flightOfContainer d c \<noteq> None) = (hasTime d c \<and> hasPrice d c)"
  by (simp add: flightOfContainer_def Let_def)

lemma eval_moreFlights_filter:
  "eval_moreFlights d =
     map (\<lambda>c. the (flightOfContainer d c))
       (filter (\<lambda>c. hasTime d c \<and> hasPrice d c)
          (querySelectorAll d Document containerSelector))"
proof -
  have "(\<lambda>x. flightOfContainer d x \<noteq> None) = (\<lambda>c. hasTime d c \<and> hasPrice d c)"
    by (rule ext) (rule flightOfContainer_iff)
  then show ?thesis
    by (simp add: eval_moreFlights_def List.map_filter_def comp_def)
qed

lemma cardFlights_cases:
  "cardFlights d origin destination =
     (if eval_flights d origin destination = [] then eval_moreFlights d
      else eval_flights d origin destination)"
  by (simp add: cardFlights_def withAlternatives_def Let_def)

text \<open>The two tests of a container, with the selectors as the browser receives them.\<close>

lemma hasTime_query:
  \<open>hasTime d c =
     (querySelectorAll d (Element c) ''[class*="time"],[class*="hour"],strong,.bold'' \<noteq> [])\<close>
  by (simp add: hasTime_def querySelector_def timeSelectors_def split: list.splits)

lemma hasPrice_query:
  \<open>hasPrice d c =
     (querySelectorAll d (Element c) ''[class*="price"],[class*="amount"],[class*="fare"]'' \<noteq> [])\<close>
  by (simp add: hasPrice_def querySelector_def priceSelectors_def split: list.splits)

lemma matchesContainerSelector_flightLike:
  "matchesContainerSelector d m e \<Longrightarrow> spec_flightLikeClass d e"
  unfolding matchesContainerSelector_def spec_flightLikeClass_def by (elim disjE conjE) simp_all

text \<open>
  Claim C8, as amended. The alternative-selector extractor contributes only when the
  flight-card selector matched no card. It does not scan all elements whose class
  contains a flight, card or journey token: it scans the \<^verbatim>\<open>div\<close> elements whose class
  contains \<^verbatim>\<open>flight\<close>, \<^verbatim>\<open>card\<close> or \<^verbatim>\<open>journey\<close> and the \<^verbatim>\<open>tr\<close> elements whose class
  contains \<^verbatim>\<open>flight\<close> (all of them elements of the kind the claim names, but not the
  converse). A scanned element yields an offer if and only if it contains both a time
  element (class containing \<^verbatim>\<open>time\<close> or \<^verbatim>\<open>hour\<close>, \<^verbatim>\<open>strong\<close>, \<^verbatim>\<open>.bold\<close>) and a price
  element (class containing \<^verbatim>\<open>price\<close>, \<^verbatim>\<open>amount\<close> or \<^verbatim>\<open>fare\<close>); the offers are those of
  the scanned elements that pass this test, in document order, one each.
\<close>

theorem moreFlights_two_features:
  \<open>(eval_flights d origin destination \<noteq> [] \<longrightarrow>
      cardFlights d origin destination = eval_flights d origin destination) \<and>
   (eval_flights d origin destination = [] \<longrightarrow>
      cardFlights d origin destination = eval_moreFlights d) \<and>
   eval_moreFlights d =
     map (\<lambda>c. the (flightOfContainer d c))
       (filter
          (\<lambda>c. querySelectorAll d (Element c)
                  ''[class*="time"],[class*="hour"],strong,.bold'' \<noteq> [] \<and>
                querySelectorAll d (Element c)
                  ''[class*="price"],[class*="amount"],[class*="fare"]'' \<noteq> [])
          (querySelectorAll d Document
             ''div[class*="flight"], div[class*="card"], tr[class*="flight"], div[class*="journey"]'')) \<and>
   (containerQueryOK d m \<longrightarrow>
      eval_moreFlights d =
        map (\<lambda>c. the (flightOfContainer d c))
          (filter
             (\<lambda>e. (localName m e = ''div'' \<and> classContains d e ''flight'' \<or>
                    localName m e = ''div'' \<and> classContains d e ''card'' \<or>
                    localName m e = ''tr'' \<and> classContains d e ''flight'' \<or>
                    localName m e = ''div'' \<and> classContains d e ''journey'') \<and>
                   querySelectorAll d (Element e)
                     ''[class*="time"],[class*="hour"],strong,.bold'' \<noteq> [] \<and>
                   querySelectorAll d (Element e)
                     ''[class*="price"],[class*="amount"],[class*="fare"]'' \<noteq> [])
             (allElements m))) \<and>
   (flightOfContainer d c \<noteq> None) =
     (querySelectorAll d (Element c) ''[class*="time"],[class*="hour"],strong,.bold'' \<noteq> [] \<and>
      querySelectorAll d (Element c) ''[class*="price"],[class*="amount"],[class*="fare"]'' \<noteq> []) \<and>
   (matchesContainerSelector d m e \<longrightarrow> spec_flightLikeClass d e)\<close>
proof -
  have a: "eval_flights d origin destination \<noteq> [] \<longrightarrow>
      cardFlights d origin destination = eval_flights d origin destination"
    by (simp add: cardFlights_cases)
  have b: "eval_flights d origin destination = [] \<longrightarrow>
      cardFlights d origin destination = eval_moreFlights d"
    by (simp add: cardFlights_cases)
  have c: \<open>eval_moreFlights d =
     map (\<lambda>c. the (flightOfContainer d c))
       (filter
          (\<lambda>c. querySelectorAll d (Element c)
                  ''[class*="time"],[class*="hour"],strong,.bold'' \<noteq> [] \<and>
                querySelectorAll d (Element c)
                  ''[class*="price"],[class*="amount"],[class*="fare"]'' \<noteq> [])
          (querySelectorAll d Document
             ''div[class*="flight"], div[class*="card"], tr[class*="flight"], div[class*="journey"]''))\<close>
    using eval_moreFlights_filter [of d]
    unfolding hasTime_query hasPrice_query containerSelector_def .
  have d: \<open>containerQueryOK d m \<longrightarrow>
      eval_moreFlights d =
        map (\<lambda>c. the (flightOfContainer d c))
          (filter
             (\<lambda>e. (localName m e = ''div'' \<and> classContains d e ''flight'' \<or>
                    localName m e = ''div'' \<and> classContains d e ''card'' \<or>
                    localName m e = ''tr'' \<and> classContains d e ''flight'' \<or>
                    localName m e = ''div'' \<and> classContains d e ''journey'') \<and>
                   querySelectorAll d (Element e)
                     ''[class*="time"],[class*="hour"],strong,.bold'' \<noteq> [] \<and>
                   querySelectorAll d (Element e)
                     ''[class*="price"],[class*="amount"],[class*="fare"]'' \<noteq> [])
             (allElements m))\<close>
  proof
    assume ok: "containerQueryOK d m"
    have "eval_moreFlights d =
       map (\<lambda>c. the (flightOfContainer d c))
         (filter (\<lambda>c. hasTime d c \<and> hasPrice d c)
            (filter (matchesContainerSelector d m) (allElements m)))"
      using eval_moreFlights_filter [of d] ok unfolding containerQueryOK_def by simp
    also have "filter (\<lambda>c. hasTime d c \<and> hasPrice d c)
            (filter (matchesContainerSelector d m) (allElements m)) =
          filter (\<lambda>e. matchesContainerSelector d m e \<and> hasTime d e \<and> hasPrice d e)
            (allElements m)"
      by (simp only: filter_filter)
    finally show \<open>eval_moreFlights d =
        map (\<lambda>c. the (flightOfContainer d c))
          (filter
             (\<lambda>e. (localName m e = ''div'' \<and> classContains d e ''flight'' \<or>
                    localName m e = ''div'' \<and> classContains d e ''card'' \<or>
                    localName m e = ''tr'' \<and> classContains d e ''flight'' \<or>
                    localName m e = ''div'' \<and> classContains d e ''journey'') \<and>
                   querySelectorAll d (Element e)
                     ''[class*="time"],[class*="hour"],strong,.bold'' \<noteq> [] \<and>
                   querySelectorAll d (Element e)
                     ''[class*="price"],[class*="amount"],[class*="fare"]'' \<noteq> [])
             (allElements m))\<close>
      unfolding hasTime_query hasPrice_query matchesContainerSelector_def .
  qed
  have e: \<open>(flightOfContainer d c \<noteq> None) =
     (querySelectorAll d (Element c) ''[class*="time"],[class*="hour"],strong,.bold'' \<noteq> [] \<and>
      querySelectorAll d (Element c) ''[class*="price"],[class*="amount"],[class*="fare"]'' \<noteq> [])\<close>
    using flightOfContainer_iff [of d c] unfolding hasTime_query hasPrice_query .
  have f: "matchesContainerSelector d m e \<longrightarrow> spec_flightLikeClass d e"
    by (rule impI) (rule matchesContainerSelector_flightLike)
  from a b c d e f show ?thesis by (intro conjI)
qed

text \<open>
  The theorem on \<open>journeyPage\<close> with its markup: no flight card; three elements are
  scanned. The first has a time and a price and gives the one offer; the second has a
  price only, the third a time only, and neither gives an offer.
\<close>

theorem moreFlights_two_features_witness:
  \<open>containerQueryOK journeyPage journeyMarkup \<and>
   filter (matchesContainerSelector journeyPage journeyMarkup) (allElements journeyMarkup) =
     [1, 4, 8] \<and>
   spec_flightLikeClass journeyPage 1 \<and>
   cardFlights journeyPage ''BUD'' ''MAN'' = eval_moreFlights journeyPage \<and>
   eval_moreFlights journeyPage = [the (flightOfContainer journeyPage 1)] \<and>
   flightOfContainer journeyPage 1 \<noteq> None \<and>
   querySelectorAll journeyPage (Element 4)
     ''[class*="time"],[class*="hour"],strong,.bold'' = [] \<and>
   querySelectorAll journeyPage (Element 4)
     ''[class*="price"],[class*="amount"],[class*="fare"]'' = [5] \<and>
   flightOfContainer journeyPage 4 = None \<and>
   querySelectorAll journeyPage (Element 8)
     ''[class*="time"],[class*="hour"],strong,.bold'' = [9] \<and>
   querySelectorAll journeyPage (Element 8)
     ''[class*="price"],[class*="amount"],[class*="fare"]'' = [] \<and>
   flightOfContainer journeyPage 8 = None\<close>
proof -
  note t1 = moreFlights_two_features
    [where d = journeyPage and m = journeyMarkup and origin = "''BUD''"
       and destination = "''MAN''" and c = 1 and e = 1]
  note t4 = moreFlights_two_features
    [where d = journeyPage and m = journeyMarkup and origin = "''BUD''"
       and destination = "''MAN''" and c = 4 and e = 1]
  note t8 = moreFlights_two_features
    [where d = journeyPage and m = journeyMarkup and origin = "''BUD''"
       and destination = "''MAN''" and c = 8 and e = 1]
  have ms: "filter (matchesContainerSelector journeyPage journeyMarkup)
              (allElements journeyMarkup) = [1, 4, 8]"
    by (simp add: matchesContainerSelector_def classContains_def journeyMarkup_def
        markupOf_def journeyPage_def pageOf_def)
  have ok: "containerQueryOK journeyPage journeyMarkup"
    unfolding containerQueryOK_def ms by (simp add: journeyPage_def pageOf_def)
  have m1: "matchesContainerSelector journeyPage journeyMarkup 1"
    by (simp add: matchesContainerSelector_def classContains_def journeyMarkup_def
        markupOf_def journeyPage_def pageOf_def)
  have h: "eval_flights journeyPage ''BUD'' ''MAN'' = []"
    by (simp add: eval_flights_def journeyPage_def pageOf_def selector_defs)
  have q1: \<open>querySelectorAll journeyPage (Element 1)
     ''[class*="time"],[class*="hour"],strong,.bold'' = [2]\<close>
    by (simp add: journeyPage_def pageOf_def selector_defs)
  have p1: \<open>querySelectorAll journeyPage (Element 1)
     ''[class*="price"],[class*="amount"],[class*="fare"]'' = [3]\<close>
    by (simp add: journeyPage_def pageOf_def selector_defs)
  have q4: \<open>querySelectorAll journeyPage (Element 4)
     ''[class*="time"],[class*="hour"],strong,.bold'' = []\<close>
    by (simp add: journeyPage_def pageOf_def selector_defs)
  have p4: \<open>querySelectorAll journeyPage (Element 4)
     ''[class*="price"],[class*="amount"],[class*="fare"]'' = [5]\<close>
    by (simp add: journeyPage_def pageOf_def selector_defs)
  have q8: \<open>querySelectorAll journeyPage (Element 8)
     ''[class*="time"],[class*="hour"],strong,.bold'' = [9]\<close>
    by (simp add: journeyPage_def pageOf_def selector_defs)
  have p8: \<open>querySelectorAll journeyPage (Element 8)
     ''[class*="price"],[class*="amount"],[class*="fare"]'' = []\<close>
    by (simp add: journeyPage_def pageOf_def selector_defs)
  have s1: "spec_flightLikeClass journeyPage 1"
    by (rule mp [OF conjunct2 [OF conjunct2 [OF conjunct2 [OF conjunct2 [OF conjunct2 [OF t1]]]]] m1])
  have a: "cardFlights journeyPage ''BUD'' ''MAN'' = eval_moreFlights journeyPage"
    by (rule mp [OF conjunct1 [OF conjunct2 [OF t1]] h])
  have b0: "eval_moreFlights journeyPage =
      map (\<lambda>c. the (flightOfContainer journeyPage c))
        (filter
           (\<lambda>e. matchesContainerSelector journeyPage journeyMarkup e \<and>
                 hasTime journeyPage e \<and> hasPrice journeyPage e)
           (allElements journeyMarkup))"
    using mp [OF conjunct1 [OF conjunct2 [OF conjunct2 [OF conjunct2 [OF t1]]]] ok]
    unfolding hasTime_query hasPrice_query matchesContainerSelector_def .
  have fl: "filter
           (\<lambda>e. matchesContainerSelector journeyPage journeyMarkup e \<and>
                 hasTime journeyPage e \<and> hasPrice journeyPage e)
           (allElements journeyMarkup) = [1]"
    by (simp add: matchesContainerSelector_def classContains_def journeyMarkup_def
        markupOf_def hasTime_def hasPrice_def journeyPage_def query_defs selector_defs)
  have b: "eval_moreFlights journeyPage = [the (flightOfContainer journeyPage 1)]"
    using b0 unfolding fl by simp
  have c1: "flightOfContainer journeyPage 1 \<noteq> None"
    using conjunct1 [OF conjunct2 [OF conjunct2 [OF conjunct2 [OF conjunct2 [OF t1]]]]]
    unfolding q1 p1 by simp
  have c4: "flightOfContainer journeyPage 4 = None"
    using conjunct1 [OF conjunct2 [OF conjunct2 [OF conjunct2 [OF conjunct2 [OF t4]]]]]
    unfolding q4 p4 by simp
  have c8: "flightOfContainer journeyPage 8 = None"
    using conjunct1 [OF conjunct2 [OF conjunct2 [OF conjunct2 [OF conjunct2 [OF t8]]]]]
    unfolding q8 p8 by simp
  from ok ms s1 a b c1 q4 p4 c4 q8 p8 c8 show ?thesis by (intro conjI)
qed

text \<open>
  Against the claim as it was written, \<open>spanPage\<close>: its element 1 has a class containing
  \<^verbatim>\<open>flight\<close> and contains a time element and a price element, and no flight card
  matched; but it is a \<^verbatim>\<open>span\<close>, so it is not scanned, and the page gives no offer.
\<close>

theorem moreFlights_span_counterexample:
  \<open>containerQueryOK spanPage spanMarkup \<and>
   spec_flightLikeClass spanPage 1 \<and>
   localName spanMarkup 1 = ''span'' \<and>
   querySelectorAll spanPage (Element 1)
     ''[class*="time"],[class*="hour"],strong,.bold'' = [2] \<and>
   querySelectorAll spanPage (Element 1)
     ''[class*="price"],[class*="amount"],[class*="fare"]'' = [3] \<and>
   eval_flights spanPage ''BUD'' ''MAN'' = [] \<and>
   eval_moreFlights spanPage = [] \<and>
   FlightPriceResult.flights (extractFlightPrices spanPage ''BUD'' ''MAN'') = []\<close>
proof -
  have a: "containerQueryOK spanPage spanMarkup"
    by (simp add: containerQueryOK_def matchesContainerSelector_def classContains_def
        spanMarkup_def markupOf_def spanPage_def pageOf_def selector_defs)
  have b: "spec_flightLikeClass spanPage 1"
    by (simp add: spec_flightLikeClass_def classContains_def spanPage_def pageOf_def)
  have c: "localName spanMarkup 1 = ''span''"
    by (simp add: spanMarkup_def markupOf_def)
  have q: \<open>querySelectorAll spanPage (Element 1)
     ''[class*="time"],[class*="hour"],strong,.bold'' = [2]\<close>
    by (simp add: spanPage_def pageOf_def selector_defs)
  have p: \<open>querySelectorAll spanPage (Element 1)
     ''[class*="price"],[class*="amount"],[class*="fare"]'' = [3]\<close>
    by (simp add: spanPage_def pageOf_def selector_defs)
  have e: "eval_flights spanPage ''BUD'' ''MAN'' = []"
    by (simp add: eval_flights_def spanPage_def pageOf_def selector_defs)
  have f: "eval_moreFlights spanPage = []"
    by (simp add: eval_moreFlights_def spanPage_def pageOf_def selector_defs)
  have g: "FlightPriceResult.flights (extractFlightPrices spanPage ''BUD'' ''MAN'') = []"
    by (simp add: spanPage_def text_defs query_defs selector_defs extract_defs)
  from a b c q p e f g show ?thesis by (intro conjI)
qed

section \<open>Claims C4 and C5: the order of the sources\<close>

lemma find_Some_nonempty: "find P xs = Some x \<Longrightarrow> xs \<noteq> []"
  by (cases xs) auto

lemma fallbackFlights_cases:
  "fallbackFlights d origin destination =
     (if cardFlights d origin destination = [] then
        (case find DatePrice.isSelected (eval_datePrices d) of
           Some sdp \<Rightarrow> [genericFlight sdp (eval_additionalInfo d) origin destination]
         | None \<Rightarrow> [])
      else cardFlights d origin destination)"
proof (cases "find DatePrice.isSelected (eval_datePrices d)")
  case None
  then show ?thesis by (simp add: fallbackFlights_def withSelectedDatePrice_def)
next
  case (Some sdp)
  then have "eval_datePrices d \<noteq> []" by (rule find_Some_nonempty)
  with Some show ?thesis by (simp add: fallbackFlights_def withSelectedDatePrice_def)
qed

lemma flights_extract:
  "FlightPriceResult.flights (extractFlightPrices d origin destination) =
     (if usesTimeOptions (fallbackFlights d origin destination) (eval_timeOptions d)
      then map (flightOfTimeOption origin destination) (eval_timeOptions d)
      else fallbackFlights d origin destination)"
  by (simp add: extractFlightPrices_def withTimeOptions_def)

lemma usesTimeOptions_generic:
  "usesTimeOptions [genericFlight sdp info origin destination] tos = (tos \<noteq> [])"
  by (simp add: usesTimeOptions_def genericFlight_def)

lemma genericFlight_fields:
  "FlightData.price (genericFlight sdp info origin destination) = DatePrice.price sdp"
  "FlightData.departureTime (genericFlight sdp info origin destination) = ''Check website''"
  "FlightData.arrivalTime (genericFlight sdp info origin destination) = ''Check website''"
  "FlightData.duration (genericFlight sdp info origin destination) = ''Check website''"
  "FlightData.fromAirport (genericFlight sdp info origin destination) =
     orElse (AdditionalInfo.fromAirport info) origin"
  "FlightData.toAirport (genericFlight sdp info origin destination) =
     orElse (AdditionalInfo.toAirport info) destination"
  by (simp_all add: genericFlight_def)

lemma genericFlight3_fields:
  "FlightData3.price (genericFlight3 sdq) = DatePrice3.price sdq"
  "FlightData3.departureTime (genericFlight3 sdq) = ''N/A''"
  "FlightData3.arrivalTime (genericFlight3 sdq) = ''N/A''"
  "FlightData3.duration (genericFlight3 sdq) = ''N/A''"
  by (simp_all add: genericFlight3_def)

lemma genericFlight_only:
  assumes "cardFlights d origin destination = []"
    "find DatePrice.isSelected (eval_datePrices d) = Some sdp" "eval_timeOptions d = []"
  shows "FlightPriceResult.flights (extractFlightPrices d origin destination) =
      [genericFlight sdp (eval_additionalInfo d) origin destination]"
proof -
  have f: "fallbackFlights d origin destination =
      [genericFlight sdp (eval_additionalInfo d) origin destination]"
    unfolding fallbackFlights_cases using assms(1,2) by simp
  show ?thesis
    unfolding flights_extract f usesTimeOptions_generic using assms(3) by simp
qed

lemma genericFlight3_only:
  assumes "eval_flights3 d = []" "find DatePrice3.isSelected (eval_datePrices3 d) = Some sdq"
  shows "FlightPriceResult3.flights (extractFlightPrices3 d) = [genericFlight3 sdq]"
proof -
  have ne: "eval_datePrices3 d \<noteq> []" using assms(2) by (rule find_Some_nonempty)
  have "withSelectedDatePrice3 [] (eval_datePrices3 d) = [genericFlight3 sdq]"
    unfolding withSelectedDatePrice3_def using ne assms(2) by simp
  then show ?thesis by (simp add: extractFlightPrices3_def assms(1))
qed

lemma genericFlight_pushed:
  assumes "cardFlights d origin destination = []"
    "find DatePrice.isSelected (eval_datePrices d) = Some sdp"
  shows "fallbackFlights d origin destination =
      [genericFlight sdp (eval_additionalInfo d) origin destination]"
  unfolding fallbackFlights_cases using assms by simp

text \<open>
  Claim C4, as amended. In \<^verbatim>\<open>index.ts\<close>: when the card extractors (flight cards, then
  alternative selectors) yield no offer and \<open>sdp\<close> is the first date price marked
  selected, exactly one offer is synthesized, the generic entry, whose price is the price
  of \<open>sdp\<close> and whose departure time, arrival time and duration are the placeholder
  \<^verbatim>\<open>Check website\<close>; it is the result when no time slot was found on the page. In
  \<^verbatim>\<open>index3.ts\<close>, which has no time slots, the generic entry is always the result, with
  the placeholder \<^verbatim>\<open>N/A\<close>.
\<close>

theorem selectedDatePrice_fallback:
  "(cardFlights d origin destination = [] \<and>
    find DatePrice.isSelected (eval_datePrices d) = Some sdp \<longrightarrow>
      fallbackFlights d origin destination =
        [genericFlight sdp (eval_additionalInfo d) origin destination] \<and>
      FlightData.price (genericFlight sdp (eval_additionalInfo d) origin destination) =
        DatePrice.price sdp \<and>
      FlightData.departureTime (genericFlight sdp (eval_additionalInfo d) origin destination) =
        ''Check website'' \<and>
      FlightData.arrivalTime (genericFlight sdp (eval_additionalInfo d) origin destination) =
        ''Check website'' \<and>
      FlightData.duration (genericFlight sdp (eval_additionalInfo d) origin destination) =
        ''Check website'') \<and>
   (cardFlights d origin destination = [] \<and>
    find DatePrice.isSelected (eval_datePrices d) = Some sdp \<and> eval_timeOptions d = [] \<longrightarrow>
      FlightPriceResult.flights (extractFlightPrices d origin destination) =
        [genericFlight sdp (eval_additionalInfo d) origin destination]) \<and>
   (eval_flights3 d = [] \<and>
    find DatePrice3.isSelected (eval_datePrices3 d) = Some sdq \<longrightarrow>
      FlightPriceResult3.flights (extractFlightPrices3 d) = [genericFlight3 sdq] \<and>
      FlightData3.price (genericFlight3 sdq) = DatePrice3.price sdq \<and>
      FlightData3.departureTime (genericFlight3 sdq) = ''N/A'' \<and>
      FlightData3.arrivalTime (genericFlight3 sdq) = ''N/A'' \<and>
      FlightData3.duration (genericFlight3 sdq) = ''N/A'')"
proof (intro conjI impI)
  assume a: "cardFlights d origin destination = [] \<and>
    find DatePrice.isSelected (eval_datePrices d) = Some sdp"
  then show "fallbackFlights d origin destination =
      [genericFlight sdp (eval_additionalInfo d) origin destination]"
    using genericFlight_pushed by blast
next
  assume a: "cardFlights d origin destination = [] \<and>
    find DatePrice.isSelected (eval_datePrices d) = Some sdp \<and> eval_timeOptions d = []"
  then show "FlightPriceResult.flights (extractFlightPrices d origin destination) =
      [genericFlight sdp (eval_additionalInfo d) origin destination]"
    using genericFlight_only by blast
next
  assume a: "eval_flights3 d = [] \<and>
    find DatePrice3.isSelected (eval_datePrices3 d) = Some sdq"
  then show "FlightPriceResult3.flights (extractFlightPrices3 d) = [genericFlight3 sdq]"
    using genericFlight3_only by blast
qed (rule genericFlight_fields genericFlight3_fields)+

text \<open>
  The theorem on \<open>selectedDatePage\<close>: one offer, priced \<^verbatim>\<open>45\<close> by \<^verbatim>\<open>index.ts\<close> (the
  date price holds the number only) and \<^verbatim>\<open>45 Ft\<close> by \<^verbatim>\<open>index3.ts\<close>.
\<close>

theorem selectedDatePrice_fallback_witness:
  "map FlightData.price
     (FlightPriceResult.flights (extractFlightPrices selectedDatePage ''BUD'' ''MAN'')) =
     [''45''] \<and>
   map FlightData.departureTime
     (FlightPriceResult.flights (extractFlightPrices selectedDatePage ''BUD'' ''MAN'')) =
     [''Check website''] \<and>
   map FlightData3.price (FlightPriceResult3.flights (extractFlightPrices3 selectedDatePage)) =
     [''45 Ft''] \<and>
   map FlightData3.departureTime
     (FlightPriceResult3.flights (extractFlightPrices3 selectedDatePage)) = [''N/A'']"
proof -
  define sdp where "sdp = \<lparr>DatePrice.date = '' '', weekday = [], DatePrice.price = ''45'',
    DatePrice.currency = ''Ft'', DatePrice.isSelected = True\<rparr>"
  define sdq where "sdq = \<lparr>DatePrice3.date = [], day = [], DatePrice3.price = ''45 Ft'',
    DatePrice3.isSelected = True\<rparr>"
  note t = selectedDatePrice_fallback
    [where d = selectedDatePage and origin = "''BUD''" and destination = "''MAN''"
       and sdp = sdp and sdq = sdq]
  have h: "cardFlights selectedDatePage ''BUD'' ''MAN'' = [] \<and>
      find DatePrice.isSelected (eval_datePrices selectedDatePage) = Some sdp \<and>
      eval_timeOptions selectedDatePage = []"
    by (simp add: sdp_def selectedDatePage_def text_defs query_defs selector_defs extract_defs)
  have h3: "eval_flights3 selectedDatePage = [] \<and>
      find DatePrice3.isSelected (eval_datePrices3 selectedDatePage) = Some sdq"
    by (simp add: sdq_def selectedDatePage_def text_defs query_defs selector_defs extract_defs)
  have p: "DatePrice.price sdp = ''45''" by (simp add: sdp_def)
  have p3: "DatePrice3.price sdq = ''45 Ft''" by (simp add: sdq_def)
  note r = mp [OF conjunct1 [OF t] conjI [OF conjunct1 [OF h] conjunct1 [OF conjunct2 [OF h]]]]
  note rf = mp [OF conjunct1 [OF conjunct2 [OF t]] h]
  note r3 = mp [OF conjunct2 [OF conjunct2 [OF t]] h3]
  have a: "map FlightData.price
     (FlightPriceResult.flights (extractFlightPrices selectedDatePage ''BUD'' ''MAN'')) =
     [''45'']"
    unfolding rf using conjunct1 [OF conjunct2 [OF r]] p by simp
  have b: "map FlightData.departureTime
     (FlightPriceResult.flights (extractFlightPrices selectedDatePage ''BUD'' ''MAN'')) =
     [''Check website'']"
    unfolding rf using conjunct1 [OF conjunct2 [OF conjunct2 [OF r]]] by simp
  have c: "map FlightData3.price
     (FlightPriceResult3.flights (extractFlightPrices3 selectedDatePage)) = [''45 Ft'']"
    unfolding conjunct1 [OF r3] using conjunct1 [OF conjunct2 [OF r3]] p3 by simp
  have e: "map FlightData3.departureTime
     (FlightPriceResult3.flights (extractFlightPrices3 selectedDatePage)) = [''N/A'']"
    unfolding conjunct1 [OF r3] using conjunct1 [OF conjunct2 [OF conjunct2 [OF r3]]] by simp
  from a b c e show ?thesis by (intro conjI)
qed

text \<open>
  The claim as the specification states it fails when time slots are found. On
  \<open>timeSlotPage\<close> the card extractors yield nothing and the selected date price is
  \<^verbatim>\<open>45\<close>, but the result holds two offers, one per time slot, and their price is
  \<^verbatim>\<open>N/A\<close>.
\<close>

theorem selectedDatePrice_timeSlots_counterexample:
  "cardFlights timeSlotPage ''BUD'' ''MAN'' = [] \<and>
   map DatePrice.price (filter DatePrice.isSelected (eval_datePrices timeSlotPage)) =
     [''45''] \<and>
   map FlightData.price
     (FlightPriceResult.flights (extractFlightPrices timeSlotPage ''BUD'' ''MAN'')) =
     [''N/A'', ''N/A'']"
  by (simp add: timeSlotPage_def text_defs query_defs selector_defs extract_defs)

text \<open>
  Claim C5, as amended. The alternative selectors are used only when the flight-card
  selector gave no offer, and the selected date price only when the card extractors gave
  none. The time options are used only when the list then holds a single offer whose
  departure time is the placeholder \<^verbatim>\<open>Check website\<close> and a time slot was found; after
  the generic entry of the selected date price was pushed and time slots were found, that
  entry is replaced by exactly one offer per time slot. The time options are never used
  when the card extractors gave two or more offers, or a first offer whose departure
  time is not the placeholder.
\<close>

theorem tiers_in_order:
  "(eval_flights d origin destination \<noteq> [] \<longrightarrow>
      cardFlights d origin destination = eval_flights d origin destination) \<and>
   (cardFlights d origin destination \<noteq> [] \<longrightarrow>
      fallbackFlights d origin destination = cardFlights d origin destination) \<and>
   (cardFlights d origin destination = [] \<and>
    find DatePrice.isSelected (eval_datePrices d) = Some sdp \<and> eval_timeOptions d \<noteq> [] \<longrightarrow>
      FlightPriceResult.flights (extractFlightPrices d origin destination) =
        map (flightOfTimeOption origin destination) (eval_timeOptions d) \<and>
      length (FlightPriceResult.flights (extractFlightPrices d origin destination)) =
        length (querySelectorAll d Document timeSlotSelector)) \<and>
   (\<not> usesTimeOptions (fallbackFlights d origin destination) (eval_timeOptions d) \<longrightarrow>
      FlightPriceResult.flights (extractFlightPrices d origin destination) =
        fallbackFlights d origin destination) \<and>
   (cardFlights d origin destination \<noteq> [] \<and>
    (2 \<le> length (cardFlights d origin destination) \<or>
     FlightData.departureTime (hd (cardFlights d origin destination)) \<noteq> ''Check website'') \<longrightarrow>
      \<not> usesTimeOptions (fallbackFlights d origin destination) (eval_timeOptions d) \<and>
      FlightPriceResult.flights (extractFlightPrices d origin destination) =
        cardFlights d origin destination)"
proof (intro conjI impI)
  show "cardFlights d origin destination = eval_flights d origin destination"
    if "eval_flights d origin destination \<noteq> []"
    using that by (simp add: cardFlights_cases)
  show "fallbackFlights d origin destination = cardFlights d origin destination"
    if "cardFlights d origin destination \<noteq> []"
    using that by (simp add: fallbackFlights_cases)
  show "\<not> usesTimeOptions (fallbackFlights d origin destination) (eval_timeOptions d)"
    if "cardFlights d origin destination \<noteq> [] \<and>
    (2 \<le> length (cardFlights d origin destination) \<or>
     FlightData.departureTime (hd (cardFlights d origin destination)) \<noteq> ''Check website'')"
    using that by (auto simp: fallbackFlights_cases usesTimeOptions_def hd_conv_nth)
  then show "FlightPriceResult.flights (extractFlightPrices d origin destination) =
        cardFlights d origin destination"
    if "cardFlights d origin destination \<noteq> [] \<and>
    (2 \<le> length (cardFlights d origin destination) \<or>
     FlightData.departureTime (hd (cardFlights d origin destination)) \<noteq> ''Check website'')"
    using that by (auto simp: flights_extract fallbackFlights_cases usesTimeOptions_def hd_conv_nth)
  show "FlightPriceResult.flights (extractFlightPrices d origin destination) =
        fallbackFlights d origin destination"
    if "\<not> usesTimeOptions (fallbackFlights d origin destination) (eval_timeOptions d)"
    using that by (simp add: flights_extract)
  assume a: "cardFlights d origin destination = [] \<and>
    find DatePrice.isSelected (eval_datePrices d) = Some sdp \<and> eval_timeOptions d \<noteq> []"
  then show r: "FlightPriceResult.flights (extractFlightPrices d origin destination) =
        map (flightOfTimeOption origin destination) (eval_timeOptions d)"
    by (simp add: flights_extract fallbackFlights_cases usesTimeOptions_generic)
  show "length (FlightPriceResult.flights (extractFlightPrices d origin destination)) =
        length (querySelectorAll d Document timeSlotSelector)"
    unfolding r by (simp add: eval_timeOptions_def)
qed

text \<open>
  The theorem on \<open>timeSlotPage\<close>, where the generic entry is replaced by the offers of
  the two time slots, and on the page with an ordinary flight card, where the time slot
  of the page is not used.
\<close>

theorem tiers_in_order_witness:
  "length (FlightPriceResult.flights (extractFlightPrices timeSlotPage ''BUD'' ''MAN'')) = 2 \<and>
   map FlightData.departureTime
     (FlightPriceResult.flights (extractFlightPrices timeSlotPage ''BUD'' ''MAN'')) =
     [''06:00'', ''17:00''] \<and>
   eval_timeOptions (cardPage ''06:00'') \<noteq> [] \<and>
   FlightPriceResult.flights (extractFlightPrices (cardPage ''06:00'') ''BUD'' ''MAN'') =
     cardFlights (cardPage ''06:00'') ''BUD'' ''MAN''"
proof -
  define sdp where "sdp = \<lparr>DatePrice.date = '' '', weekday = [], DatePrice.price = ''45'',
    DatePrice.currency = ''Ft'', DatePrice.isSelected = True\<rparr>"
  note t = tiers_in_order
    [where d = timeSlotPage and origin = "''BUD''" and destination = "''MAN''" and sdp = sdp]
  note u = tiers_in_order
    [where d = "cardPage ''06:00''" and origin = "''BUD''" and destination = "''MAN''"]
  have h: "cardFlights timeSlotPage ''BUD'' ''MAN'' = [] \<and>
      find DatePrice.isSelected (eval_datePrices timeSlotPage) = Some sdp \<and>
      eval_timeOptions timeSlotPage \<noteq> []"
    by (simp add: sdp_def timeSlotPage_def text_defs query_defs selector_defs extract_defs)
  have k: "cardFlights (cardPage ''06:00'') ''BUD'' ''MAN'' \<noteq> [] \<and>
      (2 \<le> length (cardFlights (cardPage ''06:00'') ''BUD'' ''MAN'') \<or>
       FlightData.departureTime (hd (cardFlights (cardPage ''06:00'') ''BUD'' ''MAN'')) \<noteq>
         ''Check website'')"
    by (simp add: cardPage_def text_defs query_defs selector_defs extract_defs)
  have n: "length (querySelectorAll timeSlotPage Document timeSlotSelector) = 2"
    by (simp add: timeSlotPage_def pageOf_def selector_defs)
  have m: "map FlightData.departureTime
      (map (flightOfTimeOption ''BUD'' ''MAN'') (eval_timeOptions timeSlotPage)) =
      [''06:00'', ''17:00'']"
    by (simp add: timeSlotPage_def text_defs query_defs selector_defs extract_defs)
  have o: "eval_timeOptions (cardPage ''06:00'') \<noteq> []"
    by (simp add: cardPage_def pageOf_def selector_defs eval_timeOptions_def)
  note r = mp [OF conjunct1 [OF conjunct2 [OF conjunct2 [OF t]]] h]
  note s = mp [OF conjunct2 [OF conjunct2 [OF conjunct2 [OF conjunct2 [OF u]]]] k]
  have a: "length (FlightPriceResult.flights
      (extractFlightPrices timeSlotPage ''BUD'' ''MAN'')) = 2"
    using conjunct2 [OF r] n by simp
  have b: "map FlightData.departureTime
     (FlightPriceResult.flights (extractFlightPrices timeSlotPage ''BUD'' ''MAN'')) =
     [''06:00'', ''17:00'']"
    unfolding conjunct1 [OF r] by (rule m)
  from a b o conjunct2 [OF s] show ?thesis by (intro conjI)
qed

text \<open>
  The claim as the specification states it fails in two ways. The time options are not
  applied when the previous step produced no offer, but when it produced one: on
  \<open>timeSlotPage\<close> the list holds the one generic entry when the time options replace
  it. And the test reads the departure text, not the origin of the offer: on the page
  whose single flight card shows \<^verbatim>\<open>Check website\<close> as its departure time, the card
  extractor produced an offer (priced \<^verbatim>\<open>45 Ft\<close>), and the time options are used all the
  same: the offer is replaced by the offer of the time slot, priced \<^verbatim>\<open>N/A\<close>.
\<close>

theorem timeOptions_after_card_counterexample:
  "length (fallbackFlights timeSlotPage ''BUD'' ''MAN'') = 1 \<and>
   usesTimeOptions (fallbackFlights timeSlotPage ''BUD'' ''MAN'')
     (eval_timeOptions timeSlotPage) \<and>
   map FlightData.price (cardFlights (cardPage ''Check website'') ''BUD'' ''MAN'') =
     [''45 Ft''] \<and>
   usesTimeOptions (fallbackFlights (cardPage ''Check website'') ''BUD'' ''MAN'')
     (eval_timeOptions (cardPage ''Check website'')) \<and>
   map FlightData.price
     (FlightPriceResult.flights (extractFlightPrices (cardPage ''Check website'') ''BUD'' ''MAN'')) =
     [''N/A'']"
  by (simp add: timeSlotPage_def cardPage_def text_defs query_defs selector_defs extract_defs)

section \<open>Claim C9: the airports of an offer\<close>

lemma flightOfTimeOption_airports:
  "FlightData.fromAirport (flightOfTimeOption origin destination opt) = origin"
  "FlightData.toAirport (flightOfTimeOption origin destination opt) = destination"
  by (simp_all add: flightOfTimeOption_def)

lemma flightOfCard_airports:
  "FlightData.fromAirport (flightOfCard d origin destination c) = origin"
  "FlightData.toAirport (flightOfCard d origin destination c) = destination"
  by (simp_all add: flightOfCard_def Let_def)

lemma flightOfContainer_airports:
  assumes "hasTime d c \<and> hasPrice d c"
  shows "FlightData.fromAirport (the (flightOfContainer d c)) =
           nthTextOr d (querySelectorAll d (Element c) (join_comma airportSelectors)) 0 ''N/A''"
    and "FlightData.toAirport (the (flightOfContainer d c)) =
           secondTextOr d (querySelectorAll d (Element c) (join_comma airportSelectors)) ''N/A''"
  using assms by (simp_all add: flightOfContainer_def Let_def)

text \<open>
  Claim C9, as amended. The offers of the flight cards and the offers made from the time
  options carry the origin and the destination of the query, unchanged. The offers of the
  alternative selectors never carry them: their airports are the trimmed texts of the
  first and the second airport element of the container, \<^verbatim>\<open>N/A\<close> where there is none.
  The generic entry of the selected date price carries the page-level airport codes when
  they are not empty, and the origin and destination of the query otherwise.
\<close>

theorem airports_by_path:
  "(usesTimeOptions (fallbackFlights d origin destination) (eval_timeOptions d) \<or>
    eval_flights d origin destination \<noteq> [] \<longrightarrow>
      (\<forall>f\<in>set (FlightPriceResult.flights (extractFlightPrices d origin destination)).
         FlightData.fromAirport f = origin \<and> FlightData.toAirport f = destination)) \<and>
   (\<not> usesTimeOptions (fallbackFlights d origin destination) (eval_timeOptions d) \<and>
    eval_flights d origin destination = [] \<and> eval_moreFlights d \<noteq> [] \<longrightarrow>
      FlightPriceResult.flights (extractFlightPrices d origin destination) = eval_moreFlights d \<and>
      (\<forall>f\<in>set (FlightPriceResult.flights (extractFlightPrices d origin destination)).
         \<exists>c\<in>set (querySelectorAll d Document containerSelector).
           FlightData.fromAirport f =
             nthTextOr d (querySelectorAll d (Element c) (join_comma airportSelectors)) 0
               ''N/A'' \<and>
           FlightData.toAirport f =
             secondTextOr d (querySelectorAll d (Element c) (join_comma airportSelectors))
               ''N/A'')) \<and>
   (\<not> usesTimeOptions (fallbackFlights d origin destination) (eval_timeOptions d) \<and>
    eval_flights d origin destination = [] \<and> eval_moreFlights d = [] \<longrightarrow>
      (\<forall>f\<in>set (FlightPriceResult.flights (extractFlightPrices d origin destination)).
         FlightData.fromAirport f =
           orElse (AdditionalInfo.fromAirport (eval_additionalInfo d)) origin \<and>
         FlightData.toAirport f =
           orElse (AdditionalInfo.toAirport (eval_additionalInfo d)) destination))"
proof (intro conjI impI ballI)
  let ?R = "FlightPriceResult.flights (extractFlightPrices d origin destination)"
  let ?uses = "usesTimeOptions (fallbackFlights d origin destination) (eval_timeOptions d)"
  {
    fix f
    assume h: "?uses \<or> eval_flights d origin destination \<noteq> []" and f: "f \<in> set ?R"
    have "FlightData.fromAirport f = origin \<and> FlightData.toAirport f = destination"
    proof (cases ?uses)
      case True
      then have "?R = map (flightOfTimeOption origin destination) (eval_timeOptions d)"
        by (simp add: flights_extract)
      with f obtain opt where "f = flightOfTimeOption origin destination opt" by auto
      then show ?thesis by (simp add: flightOfTimeOption_airports)
    next
      case False
      with h have ne: "eval_flights d origin destination \<noteq> []" by simp
      then have "fallbackFlights d origin destination = eval_flights d origin destination"
        by (simp add: fallbackFlights_cases cardFlights_cases)
      with False have "?R = eval_flights d origin destination" by (simp add: flights_extract)
      with f obtain c where "f = flightOfCard d origin destination c"
        by (auto simp: eval_flights_def)
      then show ?thesis by (simp add: flightOfCard_airports)
    qed
  }
  then show "FlightData.fromAirport f = origin" "FlightData.toAirport f = destination"
    if "?uses \<or> eval_flights d origin destination \<noteq> []" "f \<in> set ?R" for f
    using that by blast+
  {
    assume h: "\<not> ?uses \<and> eval_flights d origin destination = [] \<and> eval_moreFlights d \<noteq> []"
    then have "cardFlights d origin destination = eval_moreFlights d"
      by (simp add: cardFlights_cases)
    with h have "fallbackFlights d origin destination = eval_moreFlights d"
      by (simp add: fallbackFlights_cases)
    with h have "?R = eval_moreFlights d" by (simp add: flights_extract)
  }
  note r3 = this
  then show "?R = eval_moreFlights d"
    if "\<not> ?uses \<and> eval_flights d origin destination = [] \<and> eval_moreFlights d \<noteq> []"
    using that by blast
  show "\<exists>c\<in>set (querySelectorAll d Document containerSelector).
           FlightData.fromAirport f =
             nthTextOr d (querySelectorAll d (Element c) (join_comma airportSelectors)) 0
               ''N/A'' \<and>
           FlightData.toAirport f =
             secondTextOr d (querySelectorAll d (Element c) (join_comma airportSelectors))
               ''N/A''"
    if h: "\<not> ?uses \<and> eval_flights d origin destination = [] \<and> eval_moreFlights d \<noteq> []"
      and f: "f \<in> set ?R" for f
  proof -
    from r3 [OF h] f have "f \<in> set (eval_moreFlights d)" by simp
    then obtain c where c: "c \<in> set (querySelectorAll d Document containerSelector)"
      "hasTime d c \<and> hasPrice d c" "f = the (flightOfContainer d c)"
      unfolding eval_moreFlights_filter by auto
    show ?thesis
      using c(1) flightOfContainer_airports [OF c(2)] unfolding c(3) by blast
  qed
  {
    fix f
    assume h: "\<not> ?uses \<and> eval_flights d origin destination = [] \<and> eval_moreFlights d = []"
      and f: "f \<in> set ?R"
    from h have "cardFlights d origin destination = []" by (simp add: cardFlights_cases)
    then have fb: "fallbackFlights d origin destination =
        (case find DatePrice.isSelected (eval_datePrices d) of
           Some sdp \<Rightarrow> [genericFlight sdp (eval_additionalInfo d) origin destination]
         | None \<Rightarrow> [])"
      by (simp add: fallbackFlights_cases)
    from h have "?R = fallbackFlights d origin destination" by (simp add: flights_extract)
    with f fb obtain sdp where "f = genericFlight sdp (eval_additionalInfo d) origin destination"
      by (cases "find DatePrice.isSelected (eval_datePrices d)") auto
    then have "FlightData.fromAirport f =
           orElse (AdditionalInfo.fromAirport (eval_additionalInfo d)) origin \<and>
         FlightData.toAirport f =
           orElse (AdditionalInfo.toAirport (eval_additionalInfo d)) destination"
      by (simp add: genericFlight_fields)
  }
  then show "FlightData.fromAirport f =
           orElse (AdditionalInfo.fromAirport (eval_additionalInfo d)) origin"
    "FlightData.toAirport f =
           orElse (AdditionalInfo.toAirport (eval_additionalInfo d)) destination"
    if "\<not> ?uses \<and> eval_flights d origin destination = [] \<and> eval_moreFlights d = []"
      "f \<in> set ?R" for f
    using that by blast+
qed

text \<open>
  The theorem on three pages: the page with a flight card (airports of the query), the
  page with the alternative containers (the offers are those of the containers) and the
  page with the selected date price only (no page-level codes, so airports of the query).
\<close>

theorem airports_by_path_witness:
  "list_all (\<lambda>f. FlightData.fromAirport f = ''BUD'' \<and> FlightData.toAirport f = ''MAN'')
     (FlightPriceResult.flights (extractFlightPrices (cardPage ''06:00'') ''BUD'' ''MAN'')) \<and>
   FlightPriceResult.flights (extractFlightPrices journeyPage ''BUD'' ''MAN'') =
     eval_moreFlights journeyPage \<and>
   list_all (\<lambda>f. FlightData.fromAirport f = ''BUD'' \<and> FlightData.toAirport f = ''MAN'')
     (FlightPriceResult.flights (extractFlightPrices selectedDatePage ''BUD'' ''MAN''))"
proof -
  note t = airports_by_path
    [where d = "cardPage ''06:00''" and origin = "''BUD''" and destination = "''MAN''"]
  note u = airports_by_path
    [where d = journeyPage and origin = "''BUD''" and destination = "''MAN''"]
  note v = airports_by_path
    [where d = selectedDatePage and origin = "''BUD''" and destination = "''MAN''"]
  have h: "usesTimeOptions (fallbackFlights (cardPage ''06:00'') ''BUD'' ''MAN'')
        (eval_timeOptions (cardPage ''06:00'')) \<or>
      eval_flights (cardPage ''06:00'') ''BUD'' ''MAN'' \<noteq> []"
    by (simp add: eval_flights_def cardPage_def pageOf_def selector_defs)
  have k: "\<not> usesTimeOptions (fallbackFlights journeyPage ''BUD'' ''MAN'')
        (eval_timeOptions journeyPage) \<and>
      eval_flights journeyPage ''BUD'' ''MAN'' = [] \<and> eval_moreFlights journeyPage \<noteq> []"
    by (simp add: journeyPage_def text_defs query_defs selector_defs extract_defs)
  have l: "\<not> usesTimeOptions (fallbackFlights selectedDatePage ''BUD'' ''MAN'')
        (eval_timeOptions selectedDatePage) \<and>
      eval_flights selectedDatePage ''BUD'' ''MAN'' = [] \<and>
      eval_moreFlights selectedDatePage = []"
    by (simp add: selectedDatePage_def text_defs query_defs selector_defs extract_defs)
  have o: "orElse (AdditionalInfo.fromAirport (eval_additionalInfo selectedDatePage)) ''BUD'' =
      ''BUD''"
    "orElse (AdditionalInfo.toAirport (eval_additionalInfo selectedDatePage)) ''MAN'' = ''MAN''"
    by (simp_all add: selectedDatePage_def text_defs query_defs extract_defs)
  have a: "list_all (\<lambda>f. FlightData.fromAirport f = ''BUD'' \<and> FlightData.toAirport f = ''MAN'')
     (FlightPriceResult.flights (extractFlightPrices (cardPage ''06:00'') ''BUD'' ''MAN''))"
    unfolding list_all_iff by (rule mp [OF conjunct1 [OF t] h])
  have b: "FlightPriceResult.flights (extractFlightPrices journeyPage ''BUD'' ''MAN'') =
     eval_moreFlights journeyPage"
    by (rule conjunct1 [OF mp [OF conjunct1 [OF conjunct2 [OF u]] k]])
  have c: "list_all (\<lambda>f. FlightData.fromAirport f = ''BUD'' \<and> FlightData.toAirport f = ''MAN'')
     (FlightPriceResult.flights (extractFlightPrices selectedDatePage ''BUD'' ''MAN''))"
    unfolding list_all_iff using mp [OF conjunct2 [OF conjunct2 [OF v]] l] unfolding o .
  from a b c show ?thesis by (intro conjI)
qed

text \<open>
  The claim as the specification states it fails on the offers of the alternative
  selectors: on \<open>journeyPage\<close>, queried for \<^verbatim>\<open>BUD\<close> to \<^verbatim>\<open>MAN\<close>, the one offer comes
  from that extractor and both of its airports are \<^verbatim>\<open>N/A\<close>.
\<close>

theorem airports_scraped_counterexample:
  "FlightPriceResult.flights (extractFlightPrices journeyPage ''BUD'' ''MAN'') =
     eval_moreFlights journeyPage \<and>
   map FlightData.fromAirport
     (FlightPriceResult.flights (extractFlightPrices journeyPage ''BUD'' ''MAN'')) = [''N/A''] \<and>
   map FlightData.toAirport
     (FlightPriceResult.flights (extractFlightPrices journeyPage ''BUD'' ''MAN'')) = [''N/A'']"
  by (simp add: journeyPage_def text_defs query_defs selector_defs extract_defs)

section \<open>Claim C10: the two representations of a price\<close>

text \<open>
  Claim C10. The price of a date item is the numeric run of its price text alone: it
  holds amount characters only, so no currency character, and the currency run is stored
  in the currency field (where the text has no numeric run, the price is the default
  \<^verbatim>\<open>N/A\<close>). The price of a flight card is the trimmed text of the price element as it
  stands; its currency field is the currency run of that same text, which therefore also
  occurs inside the price field.
\<close>

theorem price_representations:
  "(match_class isAmountChar (datePriceText d item) = Some m \<longrightarrow>
      DatePrice.price (datePriceOf d item) = m \<and> list_all isAmountChar m \<and>
      \<not> list_ex isSymbolChar m) \<and>
   (match_class isAmountChar (datePriceText d item) = None \<longrightarrow>
      DatePrice.price (datePriceOf d item) = ''N/A'') \<and>
   (match_class isSymbolChar (datePriceText d item) = Some cur \<longrightarrow>
      DatePrice.currency (datePriceOf d item) = cur) \<and>
   (querySelector d (Element cardEl) cardPriceSelector = Some e \<and>
    trim (textContent d e) \<noteq> [] \<longrightarrow>
      FlightData.price (flightOfCard d origin destination cardEl) = trim (textContent d e)) \<and>
   FlightData.currency (flightOfCard d origin destination cardEl) =
     currency_flightCard (FlightData.price (flightOfCard d origin destination cardEl)) \<and>
   (FlightData.currency (flightOfCard d origin destination cardEl) \<noteq> [] \<longrightarrow>
      (\<exists>pre post. FlightData.price (flightOfCard d origin destination cardEl) =
         pre @ FlightData.currency (flightOfCard d origin destination cardEl) @ post))"
proof (intro conjI impI)
  assume m: "match_class isAmountChar (datePriceText d item) = Some m"
  then show "DatePrice.price (datePriceOf d item) = m"
    by (simp add: datePriceOf_def parseMoney_datePrice_def Let_def)
  from match_class_SomeD [OF m] show am: "list_all isAmountChar m" by blast
  then show "\<not> list_ex isSymbolChar m"
    by (auto simp: list_all_iff list_ex_iff amount_not_symbol)
next
  assume "match_class isAmountChar (datePriceText d item) = None"
  then show "DatePrice.price (datePriceOf d item) = ''N/A''"
    by (simp add: datePriceOf_def parseMoney_datePrice_def Let_def)
next
  assume "match_class isSymbolChar (datePriceText d item) = Some cur"
  then show "DatePrice.currency (datePriceOf d item) = cur"
    by (simp add: datePriceOf_def parseMoney_datePrice_def Let_def)
next
  assume "querySelector d (Element cardEl) cardPriceSelector = Some e \<and>
    trim (textContent d e) \<noteq> []"
  then show "FlightData.price (flightOfCard d origin destination cardEl) = trim (textContent d e)"
    by (simp add: flightOfCard_def Let_def textOr_def orElse_def)
next
  show c: "FlightData.currency (flightOfCard d origin destination cardEl) =
     currency_flightCard (FlightData.price (flightOfCard d origin destination cardEl))"
    by (simp add: flightOfCard_def Let_def)
  assume "FlightData.currency (flightOfCard d origin destination cardEl) \<noteq> []"
  then show "\<exists>pre post. FlightData.price (flightOfCard d origin destination cardEl) =
         pre @ FlightData.currency (flightOfCard d origin destination cardEl) @ post"
    unfolding c by (rule currency_in_price)
qed

text \<open>
  The theorem on the page with a flight card: the date item and the card both show
  \<^verbatim>\<open>45 Ft\<close>; the date price is \<^verbatim>\<open>45\<close> with currency \<^verbatim>\<open>Ft\<close>, the flight price is
  \<^verbatim>\<open>45 Ft\<close> with currency \<^verbatim>\<open>Ft\<close>.
\<close>

theorem price_representations_witness:
  "DatePrice.price (datePriceOf (cardPage ''06:00'') 5) = ''45'' \<and>
   DatePrice.currency (datePriceOf (cardPage ''06:00'') 5) = ''Ft'' \<and>
   FlightData.price (flightOfCard (cardPage ''06:00'') ''BUD'' ''MAN'' 1) = ''45 Ft'' \<and>
   FlightData.currency (flightOfCard (cardPage ''06:00'') ''BUD'' ''MAN'' 1) = ''Ft''"
proof -
  note t = price_representations
    [where d = "cardPage ''06:00''" and item = 5 and m = "''45''" and cur = "''Ft''"
       and cardEl = 1 and e = 4 and origin = "''BUD''" and destination = "''MAN''"]
  have h1: "match_class isAmountChar (datePriceText (cardPage ''06:00'') 5) = Some ''45''"
    by (simp add: datePriceText_def cardPage_def text_defs query_defs)
  have h2: "match_class isSymbolChar (datePriceText (cardPage ''06:00'') 5) = Some ''Ft''"
    by (simp add: datePriceText_def cardPage_def text_defs query_defs)
  have h3: "querySelector (cardPage ''06:00'') (Element 1) cardPriceSelector = Some 4 \<and>
      trim (textContent (cardPage ''06:00'') 4) \<noteq> []"
    by (simp add: cardPage_def text_defs query_defs selector_defs)
  have x: "trim (textContent (cardPage ''06:00'') 4) = ''45 Ft''"
    by (simp add: cardPage_def text_defs query_defs)
  have y: "currency_flightCard ''45 Ft'' = ''Ft''"
    by (simp add: currency_flightCard_def text_defs)
  have a: "DatePrice.price (datePriceOf (cardPage ''06:00'') 5) = ''45''"
    by (rule conjunct1 [OF mp [OF conjunct1 [OF t] h1]])
  have b: "DatePrice.currency (datePriceOf (cardPage ''06:00'') 5) = ''Ft''"
    by (rule mp [OF conjunct1 [OF conjunct2 [OF conjunct2 [OF t]]] h2])
  have c: "FlightData.price (flightOfCard (cardPage ''06:00'') ''BUD'' ''MAN'' 1) = ''45 Ft''"
    using mp [OF conjunct1 [OF conjunct2 [OF conjunct2 [OF conjunct2 [OF t]]]] h3]
    unfolding x .
  have e: "FlightData.currency (flightOfCard (cardPage ''06:00'') ''BUD'' ''MAN'' 1) = ''Ft''"
    using conjunct1 [OF conjunct2 [OF conjunct2 [OF conjunct2 [OF conjunct2 [OF t]]]]]
    unfolding c y .
  from a b c e show ?thesis by (intro conjI)
qed


end
